theory Spec2Isabelle
  imports Main "HOL-Library.Word" "HOL-Library.Sublist"
begin

section \<open>JavaScript values and strings\<close>

text \<open>
  A JavaScript string is a sequence of UTF-16 code units; \<open>length\<close> counts code units,
  as \<open>String.prototype.length\<close> does. String constants of the source are written
  \<open>lit ''...''\<close>.
\<close>

type_synonym jsstring = "nat list"

definition lit :: "string \<Rightarrow> jsstring" where
  "lit s = map of_char s"

text \<open>
  The values a request field, a query parameter or an argument can hold. Numbers are the
  integral ones (\<open>NaN\<close> is the absent result of \<open>parseInt\<close> below); \<open>JObject s\<close> stands for
  any object or array, \<open>s\<close> being the string it converts to.
\<close>

datatype jsvalue =
  JUndefined | JNull | JBool bool | JNum int | JStr jsstring | JObject jsstring

fun truthy :: "jsvalue \<Rightarrow> bool" where
  "truthy JUndefined = False"
| "truthy JNull = False"
| "truthy (JBool b) = b"
| "truthy (JNum n) = (n \<noteq> 0)"
| "truthy (JStr s) = (s \<noteq> [])"
| "truthy (JObject s) = True"

text \<open>\<open>a || b\<close>\<close>

definition js_or :: "jsvalue \<Rightarrow> jsvalue \<Rightarrow> jsvalue" where
  "js_or a b = (if truthy a then a else b)"

section \<open>Character classes and the regular expressions of the source\<close>

text \<open>
  \<open>\s\<close> and \<open>String.prototype.trim\<close>: the white space and line terminator code units of
  ECMAScript.
\<close>

definition isWhiteSpace :: "nat \<Rightarrow> bool" where
  "isWhiteSpace c \<longleftrightarrow>
     (9 \<le> c \<and> c \<le> 13) \<or> c = 32 \<or> c = 160 \<or> c = 5760 \<or> (8192 \<le> c \<and> c \<le> 8202)
     \<or> c = 8232 \<or> c = 8233 \<or> c = 8239 \<or> c = 8287 \<or> c = 12288 \<or> c = 65279"

text \<open>\<open>\d\<close>\<close>

definition isDigit :: "nat \<Rightarrow> bool" where
  "isDigit c \<longleftrightarrow> 48 \<le> c \<and> c \<le> 57"

text \<open>\<open>[A-Za-z]\<close>\<close>

definition isAlpha :: "nat \<Rightarrow> bool" where
  "isAlpha c \<longleftrightarrow> (65 \<le> c \<and> c \<le> 90) \<or> (97 \<le> c \<and> c \<le> 122)"

text \<open>\<open>\w\<close> (the same set under the \<open>i\<close> flag, as the \<open>u\<close> flag is not set)\<close>

definition isWordChar :: "nat \<Rightarrow> bool" where
  "isWordChar c \<longleftrightarrow> isAlpha c \<or> isDigit c \<or> c = 95"

text \<open>\<open>[\x00-\x1F\x7F]\<close>\<close>

definition isControl :: "nat \<Rightarrow> bool" where
  "isControl c \<longleftrightarrow> c \<le> 31 \<or> c = 127"

text \<open>
  Case-insensitive comparison of the \<open>i\<close> flag: both sides are canonicalised. The patterns
  of the source are ASCII, and a code unit from 128 on never canonicalises to an ASCII one,
  so only the ASCII letters are folded.
\<close>

definition canonicalize :: "nat \<Rightarrow> nat" where
  "canonicalize c = (if 97 \<le> c \<and> c \<le> 122 then c - 32 else c)"

definition trim :: "jsstring \<Rightarrow> jsstring" where
  "trim s = rev (dropWhile isWhiteSpace (rev (dropWhile isWhiteSpace s)))"

text \<open>
  \<open>s.replace(/re/g, rep)\<close>: the string is scanned from the left; where the expression
  matches, the match is replaced and the scan goes on behind it. The matcher gives the
  length of the match that starts at the head of its argument; every expression of the
  source matches at least one code unit.
\<close>

fun replaceAll :: "(jsstring \<Rightarrow> nat option) \<Rightarrow> jsstring \<Rightarrow> jsstring \<Rightarrow> jsstring" where
  "replaceAll m rep [] = []"
| "replaceAll m rep (c # cs) =
     (case m (c # cs) of
        Some n \<Rightarrow> rep @ replaceAll m rep (drop (n - 1) cs)
      | None \<Rightarrow> c # replaceAll m rep cs)"

text \<open>A literal pattern such as \<open>/&lt;/\<close>.\<close>

definition m_lit :: "jsstring \<Rightarrow> jsstring \<Rightarrow> nat option" where
  "m_lit pat s = (if prefix pat s then Some (length pat) else None)"

text \<open>A literal pattern under the \<open>i\<close> flag, such as \<open>/javascript:/i\<close>.\<close>

definition m_lit_ci :: "jsstring \<Rightarrow> jsstring \<Rightarrow> nat option" where
  "m_lit_ci pat s =
     (if length pat \<le> length s
         \<and> map canonicalize (take (length pat) s) = map canonicalize pat
      then Some (length pat) else None)"

text \<open>
  \<open>/<[^>]*>/\<close>: from a \<open><\<close> to the first \<open>>\<close> behind it; no match when none follows.
\<close>

definition m_tag :: "jsstring \<Rightarrow> nat option" where
  "m_tag s =
     (case s of
        [] \<Rightarrow> None
      | c # cs \<Rightarrow>
          if c = 60 \<and> 62 \<in> set cs
          then Some (length (takeWhile (\<lambda>x. x \<noteq> 62) cs) + 2) else None)"

text \<open>
  A literal under the \<open>i\<close> flag, then \<open>\w+\<close> (when \<open>words\<close> is set), then \<open>\s*\<close>, then the
  code unit \<open>stop\<close>. The three classes are disjoint, so the greedy runs are the only
  way to match and backtracking finds nothing else.
\<close>

definition m_ci_word_space :: "jsstring \<Rightarrow> bool \<Rightarrow> nat \<Rightarrow> jsstring \<Rightarrow> nat option" where
  "m_ci_word_space pat words stop s =
     (case m_lit_ci pat s of
        None \<Rightarrow> None
      | Some n \<Rightarrow>
          let r = drop n s;
              w = (if words then takeWhile isWordChar r else []);
              r1 = drop (length w) r;
              sp = takeWhile isWhiteSpace r1;
              r2 = drop (length sp) r1
          in if (words \<longrightarrow> w \<noteq> []) \<and> (case r2 of [] \<Rightarrow> False | x # _ \<Rightarrow> x = stop)
             then Some (n + length w + length sp + 1) else None)"

text \<open>\<open>/on\w+\s*=/i\<close>\<close>

definition m_on_handler :: "jsstring \<Rightarrow> nat option" where
  "m_on_handler = m_ci_word_space (lit ''on'') True 61"

text \<open>\<open>/expression\s*\(/i\<close>\<close>

definition m_expression :: "jsstring \<Rightarrow> nat option" where
  "m_expression = m_ci_word_space (lit ''expression'') False 40"

section \<open>The sanitizer (utils/sanitizer.js)\<close>

text \<open>
  The library functions the code calls and the repository does not hold:
  \<^item> \<open>dompurify tags s\<close> is
    \<open>purify.sanitize(s, {ALLOWED_TAGS: tags, ALLOWED_ATTR: [], KEEP_CONTENT: true})\<close>;
  \<^item> \<open>isEmail\<close> is \<open>validator.isEmail\<close>;
  \<^item> \<open>lowerCase\<close> is \<open>String.prototype.toLowerCase\<close>;
  \<^item> \<open>localeCompare\<close> is \<open>String.prototype.localeCompare\<close>.
  The model takes them as parameters, so that each theorem holds for whatever they compute.
\<close>

record library =
  dompurify :: "jsstring list \<Rightarrow> jsstring \<Rightarrow> jsstring"
  isEmail :: "jsstring \<Rightarrow> bool"
  lowerCase :: "jsstring \<Rightarrow> jsstring"
  localeCompare :: "jsstring \<Rightarrow> jsstring \<Rightarrow> int"

text \<open>
  The options of \<open>sanitizeInput\<close>, after the defaults of the destructuring have been
  filled in; \<open>maxLength\<close> is \<open>None\<close> for \<open>null\<close>.
\<close>

record sanitize_options =
  allowedTags :: "jsstring list"
  stripTags :: bool
  trimInput :: bool
  maxLength :: "int option"

definition default_options :: sanitize_options where
  "default_options = \<lparr>allowedTags = [], stripTags = True, trimInput = True, maxLength = None\<rparr>"

definition decodeEntities :: "jsstring \<Rightarrow> jsstring" where
  "decodeEntities s =
     replaceAll (m_lit (lit ''&#x60;'')) (lit ''`'')
      (replaceAll (m_lit (lit ''&#x2F;'')) (lit ''/'')
       (replaceAll (m_lit (lit ''&#x27;'')) [39]
        (replaceAll (m_lit (lit ''&quot;'')) [34]
         (replaceAll (m_lit (lit ''&amp;'')) (lit ''&'')
          (replaceAll (m_lit (lit ''&gt;'')) (lit ''>'')
           (replaceAll (m_lit (lit ''&lt;'')) (lit ''<'') s))))))"

definition removeTags :: "jsstring \<Rightarrow> jsstring" where
  "removeTags s = replaceAll m_tag [] s"

definition removeScriptLike :: "jsstring \<Rightarrow> jsstring" where
  "removeScriptLike s =
     replaceAll m_expression []
      (replaceAll m_on_handler []
       (replaceAll (m_lit_ci (lit ''vbscript:'')) []
        (replaceAll (m_lit_ci (lit ''javascript:'')) [] s)))"

definition removeControl :: "jsstring \<Rightarrow> jsstring" where
  "removeControl s = filter (\<lambda>c. \<not> isControl c) s"

text \<open>
  \<open>if (maxLength && sanitized.length > maxLength) sanitized = sanitized.substring(0, maxLength)\<close>;
  \<open>substring\<close> takes a negative end as 0.
\<close>

definition limitLength :: "int option \<Rightarrow> jsstring \<Rightarrow> jsstring" where
  "limitLength ml s =
     (case ml of
        None \<Rightarrow> s
      | Some n \<Rightarrow> if n \<noteq> 0 \<and> int (length s) > n then take (nat n) s else s)"

definition sanitizeString :: "library \<Rightarrow> sanitize_options \<Rightarrow> jsstring \<Rightarrow> jsstring" where
  "sanitizeString lib options input =
     (let s1 = (if trimInput options then trim input else input);
          s2 = (if stripTags options then dompurify lib (allowedTags options) s1 else s1);
          s3 = decodeEntities s2;
          s4 = removeTags s3;
          s5 = removeScriptLike s4;
          s6 = removeControl s5
      in limitLength (maxLength options) s6)"

fun sanitizeInput :: "library \<Rightarrow> sanitize_options \<Rightarrow> jsvalue \<Rightarrow> jsstring" where
  "sanitizeInput lib options (JStr input) = sanitizeString lib options input"
| "sanitizeInput lib options _ = []"

text \<open>
  An instance of the library for text that holds no markup: DOMPurify hands a string
  without \<open><\<close> back as it is, an address with an \<open>@\<close> and a dot behind it counts as
  an email address, the letters A to Z are lowered, and strings are compared code unit
  by code unit. It agrees with the real functions on the ASCII strings it is evaluated
  on below.
\<close>

fun codeUnitLess :: "jsstring \<Rightarrow> jsstring \<Rightarrow> bool" where
  "codeUnitLess [] (y # ys) = True"
| "codeUnitLess xs [] = False"
| "codeUnitLess (x # xs) (y # ys) = (x < y \<or> (x = y \<and> codeUnitLess xs ys))"

definition plainTextLibrary :: library where
  "plainTextLibrary =
     \<lparr>dompurify = (\<lambda>tags s. s),
      isEmail = (\<lambda>s. 64 \<in> set s \<and> 46 \<in> set (dropWhile (\<lambda>c. c \<noteq> 64) s)),
      lowerCase = map (\<lambda>c. if 65 \<le> c \<and> c \<le> 90 then c + 32 else c),
      localeCompare = (\<lambda>a b. if a = b then 0 else if codeUnitLess a b then - 1 else 1)\<rparr>"

section \<open>Requests and responses\<close>

text \<open>The fields of \<open>req.body\<close> and the file multer has left in \<open>req.file\<close>.\<close>

record request_body =
  body_name :: jsvalue
  body_email :: jsvalue
  body_phone :: jsvalue
  body_terms :: jsvalue

record uploaded_file =
  file_originalname :: jsstring
  file_filename :: jsstring
  file_path :: jsstring
  file_mimetype :: jsstring
  file_size :: nat

record form_data =
  fd_name :: jsstring
  fd_email :: jsstring
  fd_phone :: jsstring
  fd_terms :: jsstring

record validated_data =
  vd_name :: jsstring
  vd_email :: jsstring
  vd_phone :: jsstring
  vd_terms :: bool

text \<open>
  A record of the controller's \<open>submissions\<close> array. Name, email and phone are the values
  of the request body as they came.
\<close>

record submission =
  sub_id :: nat
  sub_name :: jsvalue
  sub_email :: jsvalue
  sub_phone :: jsvalue
  sub_terms :: bool
  sub_originalImagePath :: jsstring
  sub_originalImageFilename :: jsstring
  sub_swappedImagePath :: jsstring
  sub_swappedImageFilename :: jsstring
  sub_processingTime :: int
  sub_createdAt :: nat
  sub_status :: jsstring

record pagination =
  totalCount :: nat
  currentPage :: int
  totalPages :: int
  hasNext :: bool
  hasPrev :: bool
  nextPage :: int
  prevPage :: int

text \<open>
  What a handler sends:
  \<^item> \<open>res.status(n).render('form', {error, formData})\<close> (the form data is \<open>None\<close> for the
    empty object);
  \<^item> \<open>res.status(n).json({success: false, error})\<close>;
  \<^item> \<open>res.status(n).json({success: true, message, submissionId, swappedImageUrl,
    processingTime})\<close>;
  \<^item> \<open>res.render('submissions', {submissions, pagination})\<close>, with the records of the page
    (the URLs and the date string the view adds to each record are left out);
  \<^item> \<open>res.status(n).send(text)\<close>.
\<close>

datatype response =
    RenderForm nat jsstring "form_data option"
  | JsonError nat jsstring
  | JsonSubmitted nat jsstring nat jsstring int
  | RenderSubmissions "submission list" pagination
  | SendText nat jsstring

section \<open>Form validation (middleware/validation.js)\<close>

text \<open>\<open>errors.join(sep)\<close>\<close>

fun join :: "jsstring \<Rightarrow> jsstring list \<Rightarrow> jsstring" where
  "join sep [] = []"
| "join sep [x] = x"
| "join sep (x # y # ys) = x @ sep @ join sep (y # ys)"

text \<open>\<open>/^[A-Za-z\s]+$/.test(s)\<close>\<close>

definition matchesName :: "jsstring \<Rightarrow> bool" where
  "matchesName s \<longleftrightarrow> s \<noteq> [] \<and> list_all (\<lambda>c. isAlpha c \<or> isWhiteSpace c) s"

text \<open>\<open>/^\d{10}$/.test(s)\<close>\<close>

definition matchesPhone :: "jsstring \<Rightarrow> bool" where
  "matchesPhone s \<longleftrightarrow> length s = 10 \<and> list_all isDigit s"

definition formDataOf :: "library \<Rightarrow> request_body \<Rightarrow> form_data" where
  "formDataOf lib body =
     \<lparr>fd_name = sanitizeInput lib default_options (js_or (body_name body) (JStr [])),
      fd_email = sanitizeInput lib default_options (js_or (body_email body) (JStr [])),
      fd_phone = sanitizeInput lib default_options (js_or (body_phone body) (JStr [])),
      fd_terms = (if truthy (body_terms body) then lit ''on'' else [])\<rparr>"

text \<open>The messages each block of \<open>validateSubmission\<close> pushes, in the order of the source.\<close>

definition nameErrors :: "jsstring \<Rightarrow> jsstring list" where
  "nameErrors name =
     (if name = [] then [lit ''Name is required'']
      else if length name < 4 \<or> length name > 30
        then [lit ''Name must be between 4 and 30 characters long'']
      else if \<not> matchesName name
        then [lit ''Name must contain only alphabetic characters and spaces'']
      else [])"

definition emailErrors :: "library \<Rightarrow> jsstring \<Rightarrow> jsstring list" where
  "emailErrors lib email =
     (if email = [] then [lit ''Email is required'']
      else if \<not> isEmail lib email then [lit ''Please provide a valid email address'']
      else [])"

definition phoneErrors :: "jsstring \<Rightarrow> jsstring list" where
  "phoneErrors phone =
     (if phone = [] then [lit ''Phone number is required'']
      else if \<not> matchesPhone phone then [lit ''Phone number must be exactly 10 digits'']
      else [])"

definition termsErrors :: "jsvalue \<Rightarrow> jsstring list" where
  "termsErrors terms =
     (if \<not> truthy terms then [lit ''You must accept the Terms & Conditions''] else [])"

definition allowedMimeTypes :: "jsstring list" where
  "allowedMimeTypes = [lit ''image/jpeg'', lit ''image/jpg'', lit ''image/png'']"

definition maxFileSize :: nat where
  "maxFileSize = 2 * 1024 * 1024"

definition fileErrors :: "uploaded_file option \<Rightarrow> jsstring list" where
  "fileErrors file =
     (case file of
        None \<Rightarrow> [lit ''Image is required'']
      | Some f \<Rightarrow>
          (if file_mimetype f \<notin> set allowedMimeTypes
           then [lit ''Image must be in JPG, JPEG, or PNG format''] else [])
          @ (if file_size f > maxFileSize
             then [lit ''Image size must not exceed 2MB''] else []))"

definition collectErrors :: "library \<Rightarrow> request_body \<Rightarrow> uploaded_file option \<Rightarrow> jsstring list" where
  "collectErrors lib body file =
     (let formData = formDataOf lib body
      in nameErrors (fd_name formData) @ emailErrors lib (fd_email formData)
         @ phoneErrors (fd_phone formData) @ termsErrors (body_terms body)
         @ fileErrors file)"

text \<open>
  The middleware either answers (\<open>Inl\<close>: the early \<open>return res.status(400).render\<close>) or
  sets \<open>req.validatedData\<close> and calls \<open>next()\<close> (\<open>Inr\<close>).
\<close>

definition validateSubmission ::
  "library \<Rightarrow> request_body \<Rightarrow> uploaded_file option \<Rightarrow> response + validated_data" where
  "validateSubmission lib body file =
     (let formData = formDataOf lib body;
          errors = collectErrors lib body file
      in if length errors > 0
         then Inl (RenderForm 400 (join (lit ''. '') errors) (Some formData))
         else Inr \<lparr>vd_name = fd_name formData,
                   vd_email = lowerCase lib (fd_email formData),
                   vd_phone = fd_phone formData,
                   vd_terms = True\<rparr>)"

text \<open>
  The rules of the validator as the specification words them, each on the sanitized value
  of its field:
  \<^item> name: required; length in [4,30]; matches \<open>^[A-Za-z\s]+$\<close>;
  \<^item> email: required; passes the email format check;
  \<^item> phone: required; matches exactly 10 digits;
  \<^item> terms: must be truthy;
  \<^item> file: required; MIME type in {jpeg, jpg, png}; size at most 2 MiB.
\<close>

definition spec_name_ok :: "jsstring \<Rightarrow> bool" where
  "spec_name_ok name \<longleftrightarrow>
     name \<noteq> [] \<and> 4 \<le> length name \<and> length name \<le> 30
     \<and> (\<forall>c \<in> set name. isAlpha c \<or> isWhiteSpace c)"

definition spec_email_ok :: "library \<Rightarrow> jsstring \<Rightarrow> bool" where
  "spec_email_ok lib email \<longleftrightarrow> email \<noteq> [] \<and> isEmail lib email"

definition spec_phone_ok :: "jsstring \<Rightarrow> bool" where
  "spec_phone_ok phone \<longleftrightarrow> length phone = 10 \<and> (\<forall>c \<in> set phone. 48 \<le> c \<and> c \<le> 57)"

definition spec_terms_ok :: "jsvalue \<Rightarrow> bool" where
  "spec_terms_ok terms \<longleftrightarrow> truthy terms"

definition spec_file_ok :: "uploaded_file option \<Rightarrow> bool" where
  "spec_file_ok file \<longleftrightarrow>
     (case file of
        None \<Rightarrow> False
      | Some f \<Rightarrow>
          file_mimetype f \<in> {lit ''image/jpeg'', lit ''image/jpg'', lit ''image/png''}
          \<and> file_size f \<le> 2 * 1024 * 1024)"

section \<open>Query validation (middleware/validation.js)\<close>

text \<open>
  \<open>parseInt(s)\<close> with no radix: leading white space is skipped, a sign is read, a
  \<open>0x\<close> or \<open>0X\<close> prefix selects radix 16, and the longest run of digits is the value;
  \<open>None\<close> is \<open>NaN\<close>. The value is the mathematical integer (a JavaScript number rounds
  it beyond 2^53).
\<close>

definition digitVal :: "nat \<Rightarrow> nat" where
  "digitVal c =
     (if isDigit c then c - 48
      else if 97 \<le> c \<and> c \<le> 122 then c - 87
      else if 65 \<le> c \<and> c \<le> 90 then c - 55
      else 36)"

definition parseInt :: "jsstring \<Rightarrow> int option" where
  "parseInt input =
     (let s = dropWhile isWhiteSpace input;
          negative = (case s of c # _ \<Rightarrow> c = 45 | [] \<Rightarrow> False);
          s1 = (case s of c # cs \<Rightarrow> if c = 45 \<or> c = 43 then cs else s | [] \<Rightarrow> s);
          hex = (case s1 of a # b # _ \<Rightarrow> a = 48 \<and> (b = 120 \<or> b = 88) | _ \<Rightarrow> False);
          radix = (if hex then 16 else 10);
          s2 = (if hex then drop 2 s1 else s1);
          ds = takeWhile (\<lambda>c. digitVal c < radix) s2;
          v = foldl (\<lambda>acc c. acc * radix + digitVal c) 0 ds
      in if ds = [] then None
         else Some (if negative then - int v else int v))"

text \<open>
  The query parameters of the list route. A parameter is absent or a string (a parameter
  repeated in the URL, which Express hands over as an array, is not modelled).
\<close>

record query =
  q_page :: "jsstring option"
  q_limit :: "jsstring option"
  q_sort :: "jsstring option"

definition queryValue :: "jsstring option \<Rightarrow> jsvalue" where
  "queryValue p = (case p of None \<Rightarrow> JUndefined | Some s \<Rightarrow> JStr s)"

record query_options =
  qo_page :: int
  qo_limit :: int
  qo_skip :: int
  qo_sortBy :: jsstring
  qo_sortOrder :: int

definition allowedSortFields :: "jsstring list" where
  "allowedSortFields = [lit ''name'', lit ''email'', lit ''createdAt'', lit ''updatedAt'']"

definition validPage :: "library \<Rightarrow> jsstring option \<Rightarrow> int" where
  "validPage lib page =
     (if truthy (queryValue page)
      then (case parseInt (sanitizeInput lib default_options (queryValue page)) of
              None \<Rightarrow> 1
            | Some pageNum \<Rightarrow> if pageNum < 1 then 1 else pageNum)
      else 1)"

definition validLimit :: "library \<Rightarrow> jsstring option \<Rightarrow> int" where
  "validLimit lib limit =
     (if truthy (queryValue limit)
      then (case parseInt (sanitizeInput lib default_options (queryValue limit)) of
              None \<Rightarrow> 10
            | Some limitNum \<Rightarrow> if limitNum < 1 \<or> limitNum > 50 then 10 else limitNum)
      else 10)"

text \<open>The sort field and the sort order.\<close>

definition validSort :: "library \<Rightarrow> jsstring option \<Rightarrow> jsstring \<times> int" where
  "validSort lib sortParam =
     (if truthy (queryValue sortParam)
      then (let sortValue = sanitizeInput lib default_options (queryValue sortParam);
                (sortField, sortOrder) =
                   (if prefix (lit ''-'') sortValue then (drop 1 sortValue, - 1)
                    else (sortValue, 1))
            in if sortField \<notin> set allowedSortFields then (lit ''createdAt'', - 1)
               else (sortField, sortOrder))
      else (lit ''createdAt'', - 1))"

definition validateSubmissionsQuery :: "library \<Rightarrow> query \<Rightarrow> query_options" where
  "validateSubmissionsQuery lib q =
     (let pageNum = validPage lib (q_page q);
          limitNum = validLimit lib (q_limit q);
          (sortField, sortOrder) = validSort lib (q_sort q)
      in \<lparr>qo_page = pageNum, qo_limit = limitNum, qo_skip = (pageNum - 1) * limitNum,
          qo_sortBy = sortField, qo_sortOrder = sortOrder\<rparr>)"

section \<open>Rate limiting (middleware/validation.js)\<close>

record client_data =
  count :: nat
  resetTime :: nat

definition windowMs :: nat where
  "windowMs = 15 * 60 * 1000"

definition maxRequests :: nat where
  "maxRequests = 10"

text \<open>\<open>res.status(429).render('form', {error: ..., formData: {}})\<close>\<close>

definition tooManyRequests :: response where
  "tooManyRequests = RenderForm 429 (lit ''Too many requests. Please try again later.'') None"

text \<open>
  \<open>rateLimit\<close> at time \<open>now\<close> (\<open>Date.now()\<close>, in milliseconds) for the client \<open>ip\<close>: the
  answer is \<open>Some\<close> response when the request is turned down and \<open>None\<close> when \<open>next()\<close>
  is called; the store is returned updated.
\<close>

definition rateLimit ::
  "nat \<Rightarrow> 'ip \<Rightarrow> ('ip \<rightharpoonup> client_data) \<Rightarrow> response option \<times> ('ip \<rightharpoonup> client_data)" where
  "rateLimit now ip store =
     (let clientData =
            (case store ip of
               Some d \<Rightarrow> d
             | None \<Rightarrow> \<lparr>count = 0, resetTime = now + windowMs\<rparr>);
          clientData' =
            (if now > resetTime clientData
             then \<lparr>count = 1, resetTime = now + windowMs\<rparr>
             else clientData\<lparr>count := count clientData + 1\<rparr>);
          store' = store(ip \<mapsto> clientData')
      in (if count clientData' > maxRequests
          then Some tooManyRequests
          else None,
          store'))"


section \<open>Image signatures (utils/faceSwapAPI.js)\<close>

type_synonym byte = "8 word"

text \<open>\<open>buffer[index]\<close>: \<open>undefined\<close> beyond the end of the buffer.\<close>

definition buf_at :: "byte list \<Rightarrow> nat \<Rightarrow> byte option" where
  "buf_at buf i = (if i < length buf then Some (buf ! i) else None)"

definition signatures :: "(string \<times> byte list) list" where
  "signatures =
     [(''jpg'', [0xFF, 0xD8, 0xFF]),
      (''png'', [0x89, 0x50, 0x4E, 0x47]),
      (''gif'', [0x47, 0x49, 0x46]),
      (''webp'', [0x52, 0x49, 0x46, 0x46])]"

text \<open>\<open>signature.every((byte, index) => buffer[index] === byte)\<close>\<close>

definition signature_every :: "byte list \<Rightarrow> byte list \<Rightarrow> bool" where
  "signature_every buf signature =
     list_all (\<lambda>(byte, index). buf_at buf index = Some byte)
       (zip signature [0..<length signature])"

text \<open>The argument is \<open>None\<close> for a \<open>null\<close> or \<open>undefined\<close> buffer.\<close>

definition isValidImageBuffer :: "byte list option \<Rightarrow> bool" where
  "isValidImageBuffer buffer =
     (case buffer of
        None \<Rightarrow> False
      | Some buf \<Rightarrow>
          if length buf < 4 then False
          else list_ex (\<lambda>(format, signature). signature_every buf signature) signatures)"

definition getImageFormat :: "byte list option \<Rightarrow> jsstring" where
  "getImageFormat buffer =
     (case buffer of
        None \<Rightarrow> lit ''unknown''
      | Some buf \<Rightarrow>
          if length buf < 4 then lit ''unknown''
          else if buf_at buf 0 = Some 0xFF \<and> buf_at buf 1 = Some 0xD8 \<and> buf_at buf 2 = Some 0xFF
            then lit ''jpeg''
          else if buf_at buf 0 = Some 0x89 \<and> buf_at buf 1 = Some 0x50 \<and> buf_at buf 2 = Some 0x4E
                  \<and> buf_at buf 3 = Some 0x47
            then lit ''png''
          else if buf_at buf 0 = Some 0x47 \<and> buf_at buf 1 = Some 0x49 \<and> buf_at buf 2 = Some 0x46
            then lit ''gif''
          else if buf_at buf 0 = Some 0x52 \<and> buf_at buf 1 = Some 0x49 \<and> buf_at buf 2 = Some 0x46
                  \<and> buf_at buf 3 = Some 0x46
            then lit ''webp''
          else lit ''unknown'')"

text \<open>
  The file system: the bytes of the file at a path. \<open>fs.stat\<close> and \<open>fs.readFile\<close> throw
  on a path that holds no file, with the message below.
\<close>

type_synonym filesystem = "jsstring \<rightharpoonup> byte list"

definition noSuchFile :: "string \<Rightarrow> jsstring \<Rightarrow> jsstring" where
  "noSuchFile syscall path =
     lit ''ENOENT: no such file or directory, '' @ lit syscall @ lit '' '' @ [39] @ path @ [39]"

datatype image_validation = ImageInvalid jsstring | ImageValid nat jsstring

definition validateImage :: "filesystem \<Rightarrow> jsstring \<Rightarrow> image_validation" where
  "validateImage fs imagePath =
     (case fs imagePath of
        None \<Rightarrow> ImageInvalid (lit ''Failed to validate image: '' @ noSuchFile ''stat'' imagePath)
      | Some imageBuffer \<Rightarrow>
          if length imageBuffer > 2 * 1024 * 1024
            then ImageInvalid (lit ''Image file is too large (max 2MB allowed)'')
          else if \<not> isValidImageBuffer (Some imageBuffer)
            then ImageInvalid (lit ''Invalid image format'')
          else ImageValid (length imageBuffer) (getImageFormat (Some imageBuffer)))"

text \<open>\<open>String(n)\<close> for a natural number.\<close>

fun decimal :: "nat \<Rightarrow> jsstring" where
  "decimal n = (if n < 10 then [48 + n] else decimal (n div 10) @ [48 + n mod 10])"

declare decimal.simps [simp del]

text \<open>
  \<open>path.extname\<close>: from the last dot of the last segment of the path on; empty when the
  segment has no dot, when its only dot opens it, and for the segment \<open>..\<close>.
\<close>

definition extname :: "jsstring \<Rightarrow> jsstring" where
  "extname path =
     (let segment = rev (takeWhile (\<lambda>c. c \<noteq> 47) (dropWhile (\<lambda>c. c = 47) (rev path)));
          ext = 46 # rev (takeWhile (\<lambda>c. c \<noteq> 46) (rev segment));
          stem = take (length segment - length ext) segment
      in if 46 \<notin> set segment \<or> stem = [] \<or> segment = lit ''..'' then [] else ext)"

text \<open>
  What the process and the request bring along: the API key of the environment
  (\<open>None\<close> when unset), the directory of the swapped images
  (\<open>path.join(__dirname, '../public/uploads/swapped')\<close>) and whether it exists (\<open>fs.copyFile\<close>
  throws when it does not), the values of \<open>Date.now()\<close> and \<open>Math.random().toString(36).substring(2, 15)\<close> in
  \<open>simulateFaceSwap\<close>, and of \<open>new Date()\<close> when the record is made.
\<close>

record environment =
  apiKey :: "jsstring option"
  swappedDir :: jsstring
  swappedDirExists :: bool
  timestamp :: nat
  randomString :: jsstring
  createdNow :: nat

record swap_result =
  success :: bool
  res_swappedImagePath :: jsstring
  res_swappedImageFilename :: jsstring
  res_originalSize :: nat
  res_processedSize :: nat
  res_processingTime :: int

text \<open>
  \<open>simulateFaceSwap\<close>: \<open>Inl\<close> is the message of the error thrown; otherwise the result and
  the file system with the copy.
\<close>

definition simulateFaceSwap ::
  "environment \<Rightarrow> filesystem \<Rightarrow> jsstring \<Rightarrow> jsstring + (swap_result \<times> filesystem)" where
  "simulateFaceSwap env fs originalImagePath =
     (case fs originalImagePath of
        None \<Rightarrow> Inl (noSuchFile ''open'' originalImagePath)
      | Some originalImageBuffer \<Rightarrow>
          let extension = extname originalImagePath;
              outputFilename =
                lit ''swapped_'' @ decimal (timestamp env) @ lit ''_'' @ randomString env @ extension;
              outputPath = swappedDir env @ lit ''/'' @ outputFilename
          in if \<not> swappedDirExists env
             then Inl (noSuchFile ''copyfile'' originalImagePath @ lit '' -> '' @ [39] @ outputPath @ [39])
             else Inr (\<lparr>success = True,
                        res_swappedImagePath = outputPath,
                        res_swappedImageFilename = outputFilename,
                        res_originalSize = length originalImageBuffer,
                        res_processedSize = length originalImageBuffer,
                        res_processingTime = 2000\<rparr>,
                       fs(outputPath \<mapsto> originalImageBuffer)))"

definition swapFace ::
  "environment \<Rightarrow> filesystem \<Rightarrow> jsstring \<Rightarrow> jsstring + (swap_result \<times> filesystem)" where
  "swapFace env fs originalImagePath =
     (if apiKey env = None \<or> apiKey env = Some []
      then Inl (lit ''Face swap operation failed: '' @ lit ''Remaker API key not configured'')
      else (case simulateFaceSwap env fs originalImagePath of
              Inl message \<Rightarrow> Inl (lit ''Face swap operation failed: '' @ message)
            | Inr result \<Rightarrow> Inr result))"

section \<open>The submission controller\<close>

text \<open>
  The state of the application: the controller's \<open>submissions\<close> array and \<open>submissionId\<close>
  counter, the files on disk, and the rate limiter's store.
\<close>

record app_state =
  submissions :: "submission list"
  submissionId :: nat
  files :: filesystem
  rateLimitStore :: "jsstring \<rightharpoonup> client_data"

text \<open>
  The request as the handlers of a route see it: \<open>req.body\<close>, \<open>req.file\<close>, \<open>req.query\<close>, and
  what the validation middleware has added, \<open>req.validatedData\<close> and \<open>req.queryOptions\<close>.
\<close>

record request =
  req_ip :: jsstring
  req_body :: request_body
  req_file :: "uploaded_file option"
  req_query :: query
  req_validatedData :: "validated_data option"
  req_queryOptions :: "query_options option"

definition handleSubmission :: "environment \<Rightarrow> request \<Rightarrow> app_state \<Rightarrow> response \<times> app_state" where
  "handleSubmission env req st =
     (let name = body_name (req_body req);
          email = body_email (req_body req);
          phone = body_phone (req_body req);
          terms = body_terms (req_body req)
      in case req_file req of
           None \<Rightarrow> (JsonError 400 (lit ''No image file uploaded''), st)
         | Some uploadedFile \<Rightarrow>
             (case validateImage (files st) (file_path uploadedFile) of
                ImageInvalid err \<Rightarrow> (JsonError 400 err, st)
              | ImageValid imageSize format \<Rightarrow>
                  (case swapFace env (files st) (file_path uploadedFile) of
                     Inl message \<Rightarrow>
                       (JsonError 500 (lit ''Internal server error during processing''), st)
                   | Inr (faceSwapResult, fs') \<Rightarrow>
                       if \<not> success faceSwapResult
                       then (JsonError 500 (lit ''Face swap processing failed''), st\<lparr>files := fs'\<rparr>)
                       else
                         let submission =
                               \<lparr>sub_id = submissionId st,
                                sub_name = name,
                                sub_email = email,
                                sub_phone = phone,
                                sub_terms = (terms = JStr (lit ''on'') \<or> terms = JBool True),
                                sub_originalImagePath = file_path uploadedFile,
                                sub_originalImageFilename = file_filename uploadedFile,
                                sub_swappedImagePath = res_swappedImagePath faceSwapResult,
                                sub_swappedImageFilename = res_swappedImageFilename faceSwapResult,
                                sub_processingTime = res_processingTime faceSwapResult,
                                sub_createdAt = createdNow env,
                                sub_status = lit ''completed''\<rparr>
                         in (JsonSubmitted 200 (lit ''Face swap completed successfully!'')
                               (sub_id submission)
                               (lit ''/uploads/swapped/'' @ sub_swappedImageFilename submission)
                               (sub_processingTime submission),
                             st\<lparr>files := fs',
                                submissions := submissions st @ [submission],
                                submissionId := submissionId st + 1\<rparr>))))"

text \<open>
  The route \<open>POST /submit\<close>: \<open>rateLimit\<close>, the upload (done: the request holds its result),
  \<open>validateSubmission\<close>, \<open>handleSubmission\<close>. A middleware that answers ends the chain.
\<close>

definition submitRoute ::
  "library \<Rightarrow> environment \<Rightarrow> nat \<Rightarrow> request \<Rightarrow> app_state \<Rightarrow> response \<times> app_state" where
  "submitRoute lib env now req st =
     (case rateLimit now (req_ip req) (rateLimitStore st) of
        (Some answer, store') \<Rightarrow> (answer, st\<lparr>rateLimitStore := store'\<rparr>)
      | (None, store') \<Rightarrow>
          (case validateSubmission lib (req_body req) (req_file req) of
             Inl answer \<Rightarrow> (answer, st\<lparr>rateLimitStore := store'\<rparr>)
           | Inr validatedData \<Rightarrow>
               handleSubmission env (req\<lparr>req_validatedData := Some validatedData\<rparr>)
                 (st\<lparr>rateLimitStore := store'\<rparr>)))"

text \<open>\<open>parseInt(req.query.p)\<close>: an absent parameter is the string \<open>undefined\<close>.\<close>

definition parseIntParam :: "jsstring option \<Rightarrow> int option" where
  "parseIntParam p = parseInt (case p of None \<Rightarrow> lit ''undefined'' | Some s \<Rightarrow> s)"

text \<open>\<open>parseInt(req.query.page) || 1\<close>\<close>

definition listPage :: "query \<Rightarrow> int" where
  "listPage q = (case parseIntParam (q_page q) of None \<Rightarrow> 1 | Some n \<Rightarrow> if n = 0 then 1 else n)"

text \<open>\<open>Math.min(parseInt(req.query.limit) || 10, 50)\<close>\<close>

definition listLimit :: "query \<Rightarrow> int" where
  "listLimit q =
     min (case parseIntParam (q_limit q) of None \<Rightarrow> 10 | Some n \<Rightarrow> if n = 0 then 10 else n) 50"

text \<open>\<open>req.query.sort || 'createdAt'\<close>\<close>

definition listSort :: "query \<Rightarrow> jsstring" where
  "listSort q = (case q_sort q of None \<Rightarrow> lit ''createdAt'' | Some s \<Rightarrow> if s = [] then lit ''createdAt'' else s)"

text \<open>\<open>String(v)\<close>, the conversion \<open>localeCompare\<close> applies to its argument.\<close>

fun toStringValue :: "jsvalue \<Rightarrow> jsstring" where
  "toStringValue JUndefined = lit ''undefined''"
| "toStringValue JNull = lit ''null''"
| "toStringValue (JBool b) = (if b then lit ''true'' else lit ''false'')"
| "toStringValue (JNum n) = (if n < 0 then 45 # decimal (nat (- n)) else decimal (nat n))"
| "toStringValue (JStr s) = s"
| "toStringValue (JObject s) = s"

text \<open>
  \<open>a.name.localeCompare(b.name)\<close>: \<open>None\<close> is the \<open>TypeError\<close> raised when the receiver is
  not a string (it has no \<open>localeCompare\<close>); the argument is converted to a string.
\<close>

definition compareStrings :: "library \<Rightarrow> jsvalue \<Rightarrow> jsvalue \<Rightarrow> int option" where
  "compareStrings lib receiver argument =
     (case receiver of
        JStr x \<Rightarrow> Some (localeCompare lib x (toStringValue argument))
      | _ \<Rightarrow> None)"

text \<open>The comparator of the sort.\<close>

definition compareSubmissions ::
  "library \<Rightarrow> jsstring \<Rightarrow> submission \<Rightarrow> submission \<Rightarrow> int option" where
  "compareSubmissions lib sortParam a b =
     (if sortParam = lit ''name'' then compareStrings lib (sub_name a) (sub_name b)
      else if sortParam = lit ''email'' then compareStrings lib (sub_email a) (sub_email b)
      else Some (int (sub_createdAt b) - int (sub_createdAt a)))"

text \<open>
  \<open>Array.prototype.sort\<close> with a comparator, as a stable insertion sort; an error of the
  comparator ends it.
\<close>

fun insertSorted :: "('a \<Rightarrow> 'a \<Rightarrow> int option) \<Rightarrow> 'a \<Rightarrow> 'a list \<Rightarrow> 'a list option" where
  "insertSorted cmp x [] = Some [x]"
| "insertSorted cmp x (y # ys) =
     (case cmp x y of
        None \<Rightarrow> None
      | Some c \<Rightarrow>
          if c \<le> 0 then Some (x # y # ys)
          else (case insertSorted cmp x ys of None \<Rightarrow> None | Some zs \<Rightarrow> Some (y # zs)))"

fun sortWith :: "('a \<Rightarrow> 'a \<Rightarrow> int option) \<Rightarrow> 'a list \<Rightarrow> 'a list option" where
  "sortWith cmp [] = Some []"
| "sortWith cmp (x # xs) =
     (case sortWith cmp xs of None \<Rightarrow> None | Some ys \<Rightarrow> insertSorted cmp x ys)"

text \<open>
  \<open>xs.slice(start, end)\<close>: a negative index counts from the end of the array, and both
  indices are clamped to the array.
\<close>

definition slice :: "int \<Rightarrow> int \<Rightarrow> 'a list \<Rightarrow> 'a list" where
  "slice startIndex endIndex xs =
     (let len = int (length xs);
          k = (if startIndex < 0 then max (len + startIndex) 0 else min startIndex len);
          final = (if endIndex < 0 then max (len + endIndex) 0 else min endIndex len)
      in take (nat (final - k)) (drop (nat k) xs))"

text \<open>\<open>Math.ceil(n / limit)\<close>, for a limit other than 0.\<close>

definition ceilDiv :: "int \<Rightarrow> int \<Rightarrow> int" where
  "ceilDiv n limit = - ((- n) div limit)"

definition renderSubmissions :: "library \<Rightarrow> request \<Rightarrow> app_state \<Rightarrow> response" where
  "renderSubmissions lib req st =
     (let page = listPage (req_query req);
          limit = listLimit (req_query req);
          sortParam = listSort (req_query req)
      in case sortWith (compareSubmissions lib sortParam) (submissions st) of
           None \<Rightarrow> SendText 500 (lit ''Error loading submissions page'')
         | Some sortedSubmissions \<Rightarrow>
             let startIndex = (page - 1) * limit;
                 endIndex = startIndex + limit;
                 paginatedSubmissions = slice startIndex endIndex sortedSubmissions;
                 pages = ceilDiv (int (length (submissions st))) limit
             in RenderSubmissions paginatedSubmissions
                  \<lparr>totalCount = length (submissions st),
                   currentPage = page,
                   totalPages = pages,
                   hasNext = (page < pages),
                   hasPrev = (page > 1),
                   nextPage = page + 1,
                   prevPage = page - 1\<rparr>)"

text \<open>
  The route \<open>GET /submissions\<close>: \<open>validateSubmissionsQuery\<close> sets \<open>req.queryOptions\<close>, then
  \<open>renderSubmissions\<close> answers.
\<close>

definition listRoute :: "library \<Rightarrow> request \<Rightarrow> app_state \<Rightarrow> response" where
  "listRoute lib req st =
     renderSubmissions lib
       (req\<lparr>req_queryOptions := Some (validateSubmissionsQuery lib (req_query req))\<rparr>) st"

section \<open>The submission store (models/Submission.js)\<close>

text \<open>
  A document of the collection maps field names to values; its identifier is the field
  \<open>_id\<close>. The collection is the list of its documents.
\<close>

datatype 'oid field_value =
  FId 'oid | FString jsstring | FNumber int | FBoolean bool | FDate nat | FNull

type_synonym 'oid document = "jsstring \<rightharpoonup> 'oid field_value"

definition hasId :: "'oid \<Rightarrow> 'oid document \<Rightarrow> bool" where
  "hasId oid doc \<longleftrightarrow> doc (lit ''_id'') = Some (FId oid)"

text \<open>
  \<open>collection.findOneAndUpdate({_id: oid}, {$set: updatedData}, {returnDocument: 'after'})\<close>:
  the first document with the identifier takes the fields of \<open>updatedData\<close>; the database
  refuses (\<open>None\<close>) an update that would change \<open>_id\<close>. The result is the document after
  the update, or none when no document has the identifier.
\<close>

fun findOneAndUpdate ::
  "'oid \<Rightarrow> 'oid document \<Rightarrow> 'oid document list \<Rightarrow> ('oid document option \<times> 'oid document list) option" where
  "findOneAndUpdate oid updatedData [] = Some (None, [])"
| "findOneAndUpdate oid updatedData (doc # docs) =
     (if hasId oid doc
      then (if updatedData (lit ''_id'') \<noteq> None \<and> updatedData (lit ''_id'') \<noteq> Some (FId oid)
            then None
            else Some (Some (doc ++ updatedData), (doc ++ updatedData) # docs))
      else (case findOneAndUpdate oid updatedData docs of
              None \<Rightarrow> None
            | Some (found, docs') \<Rightarrow> Some (found, doc # docs')))"

text \<open>
  \<open>SubmissionModel.updateById\<close> of the identifier \<open>ident\<close>. \<open>objectId ident\<close> is
  \<open>new ObjectId(id)\<close>, and \<open>None\<close> when
  \<open>ObjectId.isValid(id)\<close> is false; \<open>now\<close> is \<open>new Date()\<close>; the collection is \<open>None\<close> when
  the database is not connected. \<open>Inl\<close> is the error thrown (\<open>Failed to update
  submission\<close>), \<open>Inr\<close> the value returned and the collection behind the call.
\<close>

definition updateById ::
  "(jsstring \<Rightarrow> 'oid option) \<Rightarrow> nat \<Rightarrow> 'oid document list option \<Rightarrow> jsstring \<Rightarrow> 'oid document
     \<Rightarrow> jsstring + ('oid document option \<times> 'oid document list)" where
  "updateById objectId now db ident updateData =
     (case db of
        None \<Rightarrow> Inl (lit ''Failed to update submission'')
      | Some collection \<Rightarrow>
          (case objectId ident of
             None \<Rightarrow> Inr (None, collection)
           | Some oid \<Rightarrow>
               let updatedData = updateData(lit ''updatedAt'' \<mapsto> FDate now)
               in (case findOneAndUpdate oid updatedData collection of
                     None \<Rightarrow> Inl (lit ''Failed to update submission'')
                   | Some (found, collection') \<Rightarrow> Inr (found, collection'))))"

section \<open>The scenario of the specification\<close>

text \<open>
  \<open>POST /submit\<close> with name \<open>John Doe\<close>, email \<open>JOHN@EXAMPLE.COM\<close>, phone \<open>1234567890\<close>, terms
  \<open>on\<close> and a JPEG image, which multer has stored.
\<close>

definition scenario_body :: request_body where
  "scenario_body =
     \<lparr>body_name = JStr (lit ''John Doe''), body_email = JStr (lit ''JOHN@EXAMPLE.COM''),
      body_phone = JStr (lit ''1234567890''), body_terms = JStr (lit ''on'')\<rparr>"

definition scenario_file :: uploaded_file where
  "scenario_file =
     \<lparr>file_originalname = lit ''valid.jpg'',
      file_filename = lit ''1700000000000-k3x9.jpg'',
      file_path = lit ''/app/public/uploads/original/1700000000000-k3x9.jpg'',
      file_mimetype = lit ''image/jpeg'',
      file_size = 10\<rparr>"

text \<open>
  The image is a JPEG of ten bytes at the path multer gave it; the API key is set and the
  directory of the swapped images exists. No submission has been stored yet,
  and the counter starts at 1 as in the source.
\<close>

definition scenario_image :: "byte list" where
  "scenario_image = [0xFF, 0xD8, 0xFF, 0xE0, 0x00, 0x10, 0x4A, 0x46, 0x49, 0x46]"

definition scenario_env :: environment where
  "scenario_env =
     \<lparr>apiKey = Some (lit ''secret-key''),
      swappedDir = lit ''/app/public/uploads/swapped'',
      swappedDirExists = True,
      timestamp = 1700000000100,
      randomString = lit ''q7w8e9'',
      createdNow = 1700000002100\<rparr>"

definition scenario_state :: app_state where
  "scenario_state =
     \<lparr>submissions = [],
      submissionId = 1,
      files = [file_path scenario_file \<mapsto> scenario_image],
      rateLimitStore = Map.empty\<rparr>"

definition scenario_query :: query where
  "scenario_query = \<lparr>q_page = None, q_limit = None, q_sort = None\<rparr>"

definition scenario_request :: request where
  "scenario_request =
     \<lparr>req_ip = lit ''10.0.0.7'',
      req_body = scenario_body,
      req_file = Some scenario_file,
      req_query = scenario_query,
      req_validatedData = None,
      req_queryOptions = None\<rparr>"

text \<open>The same state with a text file in place of the image.\<close>

definition scenario_text_state :: app_state where
  "scenario_text_state =
     scenario_state\<lparr>files := [file_path scenario_file \<mapsto> [0x68, 0x65, 0x6C, 0x6C, 0x6F]]\<rparr>"

text \<open>The record the scenario leaves in the \<open>submissions\<close> array.\<close>

definition scenario_record :: submission where
  "scenario_record =
     \<lparr>sub_id = 1,
      sub_name = JStr (lit ''John Doe''),
      sub_email = JStr (lit ''JOHN@EXAMPLE.COM''),
      sub_phone = JStr (lit ''1234567890''),
      sub_terms = True,
      sub_originalImagePath = lit ''/app/public/uploads/original/1700000000000-k3x9.jpg'',
      sub_originalImageFilename = lit ''1700000000000-k3x9.jpg'',
      sub_swappedImagePath =
        lit ''/app/public/uploads/swapped/swapped_1700000000100_q7w8e9.jpg'',
      sub_swappedImageFilename = lit ''swapped_1700000000100_q7w8e9.jpg'',
      sub_processingTime = 2000,
      sub_createdAt = 1700000002100,
      sub_status = lit ''completed''\<rparr>"

text \<open>The list route asked for \<open>?page=-1&limit=100\<close>, with that record stored.\<close>

definition scenario_list_query :: query where
  "scenario_list_query = \<lparr>q_page = Some (lit ''-1''), q_limit = Some (lit ''100''), q_sort = None\<rparr>"

definition scenario_list_state :: app_state where
  "scenario_list_state = scenario_state\<lparr>submissions := [scenario_record], submissionId := 2\<rparr>"

text \<open>
  For the store: identifiers of 24 hexadecimal digits, read without regard to case, and
  a stored document.
\<close>

definition hexObjectId :: "jsstring \<Rightarrow> jsstring option" where
  "hexObjectId s =
     (if length s = 24 \<and> list_all (\<lambda>c. digitVal c < 16) s then Some (map canonicalize s)
      else None)"

definition scenario_id :: jsstring where
  "scenario_id = lit ''65a1b2c3d4e5f60718293a4b''"

definition scenario_document :: "jsstring document" where
  "scenario_document =
     [lit ''_id'' \<mapsto> FId (lit ''65A1B2C3D4E5F60718293A4B''),
      lit ''name'' \<mapsto> FString (lit ''John Doe''),
      lit ''email'' \<mapsto> FString (lit ''john@example.com''),
      lit ''status'' \<mapsto> FString (lit ''completed''),
      lit ''createdAt'' \<mapsto> FDate 1700000002100,
      lit ''updatedAt'' \<mapsto> FDate 1700000002100]"

section \<open>Properties of the image signature check\<close>

lemma signature_every_3:
  "signature_every buf [a, b, c] \<longleftrightarrow>
     buf_at buf 0 = Some a \<and> buf_at buf 1 = Some b \<and> buf_at buf 2 = Some c"
  by (simp add: signature_every_def upt_rec numeral_2_eq_2 numeral_3_eq_3)

lemma signature_every_4:
  "signature_every buf [a, b, c, d] \<longleftrightarrow>
     buf_at buf 0 = Some a \<and> buf_at buf 1 = Some b \<and> buf_at buf 2 = Some c
       \<and> buf_at buf 3 = Some d"
  by (simp add: signature_every_def upt_rec numeral_2_eq_2 numeral_3_eq_3)

text \<open>
  Claim C9. A buffer is reported a valid image exactly when its detected format is not
  \<open>unknown\<close>; a buffer of fewer than four bytes is invalid and of unknown format, whatever
  its bytes are.
\<close>

theorem valid_iff_format_known:
  "(isValidImageBuffer b \<longleftrightarrow> getImageFormat b \<noteq> lit ''unknown'')
   \<and> (\<forall>buf. length buf < 4 \<longrightarrow>
         \<not> isValidImageBuffer (Some buf) \<and> getImageFormat (Some buf) = lit ''unknown'')"
proof
  show "isValidImageBuffer b \<longleftrightarrow> getImageFormat b \<noteq> lit ''unknown''"
  proof (cases b)
    case None
    then show ?thesis by (simp add: isValidImageBuffer_def getImageFormat_def)
  next
    case (Some buf)
    show ?thesis
    proof (cases "length buf < 4")
      case True
      with Some show ?thesis by (simp add: isValidImageBuffer_def getImageFormat_def)
    next
      case False
      have names: "lit ''jpeg'' \<noteq> lit ''unknown''" "lit ''png'' \<noteq> lit ''unknown''"
        "lit ''gif'' \<noteq> lit ''unknown''" "lit ''webp'' \<noteq> lit ''unknown''"
        by (simp_all add: lit_def)
      from Some False names show ?thesis
        by (simp add: isValidImageBuffer_def getImageFormat_def signatures_def
            signature_every_3 signature_every_4)
    qed
  qed
next
  show "\<forall>buf. length buf < 4 \<longrightarrow>
          \<not> isValidImageBuffer (Some buf) \<and> getImageFormat (Some buf) = lit ''unknown''"
    by (simp add: isValidImageBuffer_def getImageFormat_def)
qed

theorem valid_iff_format_known_witness:
  "length [0xFF, 0xD8, 0xFF :: byte] < 4
   \<and> \<not> isValidImageBuffer (Some [0xFF, 0xD8, 0xFF])
   \<and> getImageFormat (Some [0xFF, 0xD8, 0xFF]) = lit ''unknown''
   \<and> length [0x47, 0x49, 0x46 :: byte] < 4
   \<and> \<not> isValidImageBuffer (Some [0x47, 0x49, 0x46])
   \<and> getImageFormat (Some [0x47, 0x49, 0x46]) = lit ''unknown''"
  using valid_iff_format_known [of "Some [0xFF, 0xD8, 0xFF]"]
  by simp

section \<open>Properties of the rate limiter\<close>

lemma rateLimit_opens:
  assumes "store ip = None \<or> (\<exists>d. store ip = Some d \<and> now > resetTime d)"
  shows "rateLimit now ip store = (None, store(ip \<mapsto> \<lparr>count = 1, resetTime = now + windowMs\<rparr>))"
  using assms by (auto simp: rateLimit_def Let_def maxRequests_def)


text \<open>A request of one client leaves the counters of the other clients alone.\<close>

lemma rateLimit_other:
  "ip' \<noteq> ip \<Longrightarrow> snd (rateLimit now ip' store) ip = store ip"
  by (simp add: rateLimit_def Let_def)





section \<open>Properties of the sanitizer\<close>

lemma removeControl_clean: "\<forall>c \<in> set (removeControl s). \<not> isControl c"
  by (simp add: removeControl_def)

lemma limitLength_subset: "set (limitLength ml s) \<subseteq> set s"
  by (auto simp: limitLength_def split: option.splits dest: in_set_takeD)

lemma limitLength_bound: "0 < n \<Longrightarrow> int (length (limitLength (Some n) s)) \<le> n"
  by (simp add: limitLength_def)

lemma sanitizeString_clean: "\<forall>c \<in> set (sanitizeString lib options s). \<not> isControl c"
proof
  fix c assume "c \<in> set (sanitizeString lib options s)"
  then obtain t where "c \<in> set (removeControl t)"
    unfolding sanitizeString_def Let_def using limitLength_subset by blast
  then show "\<not> isControl c" using removeControl_clean by blast
qed

lemma sanitizeString_bound:
  "maxLength options = Some n \<Longrightarrow> 0 < n \<Longrightarrow> int (length (sanitizeString lib options s)) \<le> n"
  unfolding sanitizeString_def Let_def by (simp add: limitLength_bound)

text \<open>
  Claim C10, amended. For every value and all options the result holds no control
  character (U+0000 to U+001F, U+007F); with a positive \<open>maxLength\<close> its length is at most
  \<open>maxLength\<close>; a value that is not a string gives the empty string.
\<close>

theorem sanitizeInput_result:
  "(\<forall>c \<in> set (sanitizeInput lib options v). \<not> isControl c)
   \<and> (\<forall>n. maxLength options = Some n \<and> 0 < n \<longrightarrow>
          int (length (sanitizeInput lib options v)) \<le> n)
   \<and> ((\<forall>s. v \<noteq> JStr s) \<longrightarrow> sanitizeInput lib options v = [])"
proof (cases v)
  case (JStr s)
  then show ?thesis
    using sanitizeString_clean [of lib options s] sanitizeString_bound [of options _ lib s]
    by simp
qed simp_all

lemmas char_class_defs = isWhiteSpace_def isDigit_def isAlpha_def isWordChar_def isControl_def canonicalize_def
lemmas matcher_defs = m_lit_def m_lit_ci_def m_tag_def m_ci_word_space_def m_on_handler_def m_expression_def
lemmas sanitize_defs = sanitizeString_def trim_def decodeEntities_def removeTags_def removeScriptLike_def
  removeControl_def limitLength_def default_options_def

theorem sanitizeInput_result_witness:
  "maxLength (default_options\<lparr>maxLength := Some 2\<rparr>) = Some 2 \<and> (0::int) < 2
   \<and> int (length (sanitizeInput plainTextLibrary (default_options\<lparr>maxLength := Some 2\<rparr>)
                     (JStr [97, 0, 98, 99]))) \<le> 2
   \<and> 0 \<notin> set (sanitizeInput plainTextLibrary (default_options\<lparr>maxLength := Some 2\<rparr>)
                  (JStr [97, 0, 98, 99]))
   \<and> (\<forall>s. JNum 7 \<noteq> JStr s)
   \<and> sanitizeInput plainTextLibrary (default_options\<lparr>maxLength := Some 2\<rparr>) (JNum 7) = []"
proof -
  have c: "isControl 0" by (simp add: isControl_def)
  show ?thesis
    using sanitizeInput_result [of plainTextLibrary "default_options\<lparr>maxLength := Some 2\<rparr>"
        "JStr [97, 0, 98, 99]"]
      sanitizeInput_result [of plainTextLibrary "default_options\<lparr>maxLength := Some 2\<rparr>" "JNum 7"] c
    by (auto simp: default_options_def)
qed

text \<open>
  The claim as stated fails where the \<open>maxLength\<close> supplied is not positive: with
  \<open>maxLength\<close> 0 the guard \<open>maxLength && ...\<close> is false and the string stays whole, and
  under a negative \<open>maxLength\<close> no length is small enough.
\<close>

theorem sanitizeInput_maxLength_counterexample:
  "maxLength (default_options\<lparr>maxLength := Some 0\<rparr>) = Some 0
   \<and> \<not> int (length (sanitizeInput plainTextLibrary (default_options\<lparr>maxLength := Some 0\<rparr>)
                      (JStr (lit ''abc'')))) \<le> 0
   \<and> maxLength (default_options\<lparr>maxLength := Some (- 1)\<rparr>) = Some (- 1)
   \<and> \<not> int (length (sanitizeInput plainTextLibrary (default_options\<lparr>maxLength := Some (- 1)\<rparr>)
                      (JStr (lit ''abc'')))) \<le> - 1"
  by (simp add: sanitize_defs matcher_defs char_class_defs lit_def Let_def plainTextLibrary_def)

section \<open>Properties of the form validation\<close>

lemma lit_eq_iff [simp]: "lit s = lit t \<longleftrightarrow> s = t"
  by (simp add: lit_def inj_map_eq_map inj_def)

lemma lit_Nil_iff [simp]: "lit s = [] \<longleftrightarrow> s = []" "[] = lit s \<longleftrightarrow> s = []"
  by (auto simp: lit_def)

lemma join_sublist: "m \<in> set errors \<Longrightarrow> sublist m (join sep errors)"
proof (induction sep errors rule: join.induct)
  case (3 sep x y ys)
  show ?case
  proof (cases "m = x")
    case True
    then show ?thesis by (simp add: sublist_append_rightI)
  next
    case False
    with 3 have "sublist m (join sep (y # ys))" by simp
    then show ?thesis by (simp add: sublist_append)
  qed
qed simp_all

lemma nameErrors_empty_iff: "nameErrors name = [] \<longleftrightarrow> spec_name_ok name"
  by (auto simp: nameErrors_def spec_name_ok_def matchesName_def list_all_iff)

lemma emailErrors_empty_iff: "emailErrors lib email = [] \<longleftrightarrow> spec_email_ok lib email"
  by (auto simp: emailErrors_def spec_email_ok_def)

lemma phoneErrors_empty_iff: "phoneErrors phone = [] \<longleftrightarrow> spec_phone_ok phone"
  by (auto simp: phoneErrors_def spec_phone_ok_def matchesPhone_def list_all_iff isDigit_def)

lemma termsErrors_empty_iff: "termsErrors terms = [] \<longleftrightarrow> spec_terms_ok terms"
  by (simp add: termsErrors_def spec_terms_ok_def)

lemma fileErrors_empty_iff: "fileErrors file = [] \<longleftrightarrow> spec_file_ok file"
  by (auto simp: fileErrors_def spec_file_ok_def allowedMimeTypes_def maxFileSize_def
      split: option.splits)

lemma nameErrors_set:
  "set (nameErrors name) \<subseteq>
     {lit ''Name is required'', lit ''Name must be between 4 and 30 characters long'',
      lit ''Name must contain only alphabetic characters and spaces''}"
  by (auto simp: nameErrors_def)

lemma emailErrors_set:
  "set (emailErrors lib email) \<subseteq>
     {lit ''Email is required'', lit ''Please provide a valid email address''}"
  by (auto simp: emailErrors_def)

lemma phoneErrors_set:
  "set (phoneErrors phone) \<subseteq>
     {lit ''Phone number is required'', lit ''Phone number must be exactly 10 digits''}"
  by (auto simp: phoneErrors_def)

lemma termsErrors_set:
  "set (termsErrors terms) \<subseteq> {lit ''You must accept the Terms & Conditions''}"
  by (auto simp: termsErrors_def)

lemma fileErrors_set:
  "set (fileErrors file) \<subseteq>
     {lit ''Image is required'', lit ''Image must be in JPG, JPEG, or PNG format'',
      lit ''Image size must not exceed 2MB''}"
  by (auto simp: fileErrors_def split: option.splits)

lemma collectErrors_set:
  "set (collectErrors lib body file) =
     set (nameErrors (fd_name (formDataOf lib body)))
     \<union> set (emailErrors lib (fd_email (formDataOf lib body)))
     \<union> set (phoneErrors (fd_phone (formDataOf lib body)))
     \<union> set (termsErrors (body_terms body))
     \<union> set (fileErrors file)"
  by (simp add: collectErrors_def Let_def Un_assoc)

lemma collectErrors_empty_iff:
  "collectErrors lib body file = [] \<longleftrightarrow>
     spec_name_ok (fd_name (formDataOf lib body))
     \<and> spec_email_ok lib (fd_email (formDataOf lib body))
     \<and> spec_phone_ok (fd_phone (formDataOf lib body))
     \<and> spec_terms_ok (body_terms body)
     \<and> spec_file_ok file"
  by (simp add: collectErrors_def Let_def nameErrors_empty_iff emailErrors_empty_iff
      phoneErrors_empty_iff termsErrors_empty_iff fileErrors_empty_iff)

lemma validateSubmission_cases:
  "validateSubmission lib body file =
     (if collectErrors lib body file = []
      then Inr \<lparr>vd_name = fd_name (formDataOf lib body),
                vd_email = lowerCase lib (fd_email (formDataOf lib body)),
                vd_phone = fd_phone (formDataOf lib body),
                vd_terms = True\<rparr>
      else Inl (RenderForm 400 (join (lit ''. '') (collectErrors lib body file))
                  (Some (formDataOf lib body))))"
  by (simp add: validateSubmission_def Let_def)

lemma rule_message:
  assumes "part \<noteq> []" and "set part \<subseteq> A" and "set part \<subseteq> set errors"
  shows "\<exists>m \<in> A. m \<in> set errors \<and> sublist m (join sep errors)"
proof -
  from assms(1) obtain m where "m \<in> set part" by (cases part) auto
  with assms(2,3) have "m \<in> A" "m \<in> set errors" by auto
  then show ?thesis using join_sublist by blast
qed

text \<open>
  Claim C4. \<open>validateSubmission\<close> has one of two outcomes. Either all five rules pass and
  the validated data is the normalized field set (sanitized name and phone, lower-cased
  email, terms \<open>True\<close>); or a rule is violated and the answer is status 400 with the
  messages collected, not empty, joined in the error text, where every violated rule
  (name, email, phone, terms, file) has a message of its own.
\<close>

theorem validateSubmission_outcome:
  "(let fd = formDataOf lib body;
        errors = collectErrors lib body file;
        allPass = (spec_name_ok (fd_name fd) \<and> spec_email_ok lib (fd_email fd)
                   \<and> spec_phone_ok (fd_phone fd) \<and> spec_terms_ok (body_terms body)
                   \<and> spec_file_ok file)
    in case validateSubmission lib body file of
         Inr validatedData \<Rightarrow>
           allPass
           \<and> validatedData = \<lparr>vd_name = fd_name fd, vd_email = lowerCase lib (fd_email fd),
                               vd_phone = fd_phone fd, vd_terms = True\<rparr>
       | Inl answer \<Rightarrow>
           \<not> allPass \<and> errors \<noteq> []
           \<and> answer = RenderForm 400 (join (lit ''. '') errors) (Some fd)
           \<and> (\<not> spec_name_ok (fd_name fd) \<longrightarrow>
                (\<exists>m \<in> {lit ''Name is required'',
                         lit ''Name must be between 4 and 30 characters long'',
                         lit ''Name must contain only alphabetic characters and spaces''}.
                    m \<in> set errors \<and> sublist m (join (lit ''. '') errors)))
           \<and> (\<not> spec_email_ok lib (fd_email fd) \<longrightarrow>
                (\<exists>m \<in> {lit ''Email is required'', lit ''Please provide a valid email address''}.
                    m \<in> set errors \<and> sublist m (join (lit ''. '') errors)))
           \<and> (\<not> spec_phone_ok (fd_phone fd) \<longrightarrow>
                (\<exists>m \<in> {lit ''Phone number is required'',
                         lit ''Phone number must be exactly 10 digits''}.
                    m \<in> set errors \<and> sublist m (join (lit ''. '') errors)))
           \<and> (\<not> spec_terms_ok (body_terms body) \<longrightarrow>
                (\<exists>m \<in> {lit ''You must accept the Terms & Conditions''}.
                    m \<in> set errors \<and> sublist m (join (lit ''. '') errors)))
           \<and> (\<not> spec_file_ok file \<longrightarrow>
                (\<exists>m \<in> {lit ''Image is required'',
                         lit ''Image must be in JPG, JPEG, or PNG format'',
                         lit ''Image size must not exceed 2MB''}.
                    m \<in> set errors \<and> sublist m (join (lit ''. '') errors))))"
proof (cases "collectErrors lib body file = []")
  case True
  then show ?thesis
    using collectErrors_empty_iff [of lib body "file"]
    by (simp add: validateSubmission_cases Let_def)
next
  case False
  let ?fd = "formDataOf lib body"
  let ?errors = "collectErrors lib body file"
  have sub: "set (nameErrors (fd_name ?fd)) \<subseteq> set ?errors"
    "set (emailErrors lib (fd_email ?fd)) \<subseteq> set ?errors"
    "set (phoneErrors (fd_phone ?fd)) \<subseteq> set ?errors"
    "set (termsErrors (body_terms body)) \<subseteq> set ?errors"
    "set (fileErrors file) \<subseteq> set ?errors"
    by (auto simp: collectErrors_set)
  have n: "\<not> spec_name_ok (fd_name ?fd) \<Longrightarrow>
      \<exists>m \<in> {lit ''Name is required'',
              lit ''Name must be between 4 and 30 characters long'',
              lit ''Name must contain only alphabetic characters and spaces''}.
         m \<in> set ?errors \<and> sublist m (join (lit ''. '') ?errors)"
    by (rule rule_message [OF _ nameErrors_set sub(1)]) (simp add: nameErrors_empty_iff)
  have e: "\<not> spec_email_ok lib (fd_email ?fd) \<Longrightarrow>
      \<exists>m \<in> {lit ''Email is required'', lit ''Please provide a valid email address''}.
         m \<in> set ?errors \<and> sublist m (join (lit ''. '') ?errors)"
    by (rule rule_message [OF _ emailErrors_set sub(2)]) (simp add: emailErrors_empty_iff)
  have p: "\<not> spec_phone_ok (fd_phone ?fd) \<Longrightarrow>
      \<exists>m \<in> {lit ''Phone number is required'', lit ''Phone number must be exactly 10 digits''}.
         m \<in> set ?errors \<and> sublist m (join (lit ''. '') ?errors)"
    by (rule rule_message [OF _ phoneErrors_set sub(3)]) (simp add: phoneErrors_empty_iff)
  have t: "\<not> spec_terms_ok (body_terms body) \<Longrightarrow>
      \<exists>m \<in> {lit ''You must accept the Terms & Conditions''}.
         m \<in> set ?errors \<and> sublist m (join (lit ''. '') ?errors)"
    by (rule rule_message [OF _ termsErrors_set sub(4)]) (simp add: termsErrors_empty_iff)
  have f: "\<not> spec_file_ok file \<Longrightarrow>
      \<exists>m \<in> {lit ''Image is required'',
              lit ''Image must be in JPG, JPEG, or PNG format'',
              lit ''Image size must not exceed 2MB''}.
         m \<in> set ?errors \<and> sublist m (join (lit ''. '') ?errors)"
    by (rule rule_message [OF _ fileErrors_set sub(5)]) (simp add: fileErrors_empty_iff)
  have notall: "\<not> (spec_name_ok (fd_name ?fd) \<and> spec_email_ok lib (fd_email ?fd)
                   \<and> spec_phone_ok (fd_phone ?fd) \<and> spec_terms_ok (body_terms body)
                   \<and> spec_file_ok file)"
    using False collectErrors_empty_iff [of lib body "file"] by blast
  have v: "validateSubmission lib body file =
      Inl (RenderForm 400 (join (lit ''. '') ?errors) (Some ?fd))"
    using False by (simp add: validateSubmission_cases)
  show ?thesis
    unfolding Let_def v sum.case
    using False notall n e p t f by blast
qed

lemmas eval_defs = formDataOf_def js_or_def sanitize_defs matcher_defs char_class_defs lit_def Let_def
  plainTextLibrary_def scenario_body_def





theorem validateSubmission_outcome_witness:
  "validateSubmission plainTextLibrary scenario_body (Some scenario_file) =
     Inr \<lparr>vd_name = lit ''John Doe'', vd_email = lit ''john@example.com'',
          vd_phone = lit ''1234567890'', vd_terms = True\<rparr>
   \<and> spec_name_ok (lit ''John Doe'')
   \<and> \<not> spec_name_ok (fd_name (formDataOf plainTextLibrary (scenario_body\<lparr>body_name := JStr (lit ''Al'')\<rparr>)))
   \<and> \<not> spec_file_ok None
   \<and> (\<exists>m \<in> {lit ''Name is required'',
               lit ''Name must be between 4 and 30 characters long'',
               lit ''Name must contain only alphabetic characters and spaces''}.
          m \<in> set (collectErrors plainTextLibrary (scenario_body\<lparr>body_name := JStr (lit ''Al'')\<rparr>) None))
   \<and> (\<exists>m \<in> {lit ''Image is required'',
               lit ''Image must be in JPG, JPEG, or PNG format'',
               lit ''Image size must not exceed 2MB''}.
          m \<in> set (collectErrors plainTextLibrary (scenario_body\<lparr>body_name := JStr (lit ''Al'')\<rparr>) None))"
proof -
  let ?bad = "scenario_body\<lparr>body_name := JStr (lit ''Al'')\<rparr>"
  have fd: "formDataOf plainTextLibrary scenario_body =
      \<lparr>fd_name = lit ''John Doe'', fd_email = lit ''JOHN@EXAMPLE.COM'',
       fd_phone = lit ''1234567890'', fd_terms = lit ''on''\<rparr>"
    by (simp add: eval_defs)
  have low: "lowerCase plainTextLibrary (lit ''JOHN@EXAMPLE.COM'') = lit ''john@example.com''"
    by (simp add: plainTextLibrary_def lit_def)
  have ok: "spec_name_ok (lit ''John Doe'')"
    by (simp add: spec_name_ok_def lit_def isAlpha_def isWhiteSpace_def)
  have errs: "collectErrors plainTextLibrary scenario_body (Some scenario_file) = []"
    unfolding collectErrors_def Let_def fd
    by (simp add: nameErrors_def emailErrors_def phoneErrors_def termsErrors_def fileErrors_def
        matchesName_def matchesPhone_def allowedMimeTypes_def maxFileSize_def scenario_file_def
        scenario_body_def plainTextLibrary_def lit_def isAlpha_def isWhiteSpace_def isDigit_def)
  have good: "\<exists>vd. validateSubmission plainTextLibrary scenario_body (Some scenario_file) = Inr vd"
    using errs by (simp add: validateSubmission_cases)
  have name: "fd_name (formDataOf plainTextLibrary ?bad) = lit ''Al''"
    by (simp add: eval_defs)
  have bad: "\<not> spec_name_ok (fd_name (formDataOf plainTextLibrary ?bad))"
    unfolding name by (simp add: spec_name_ok_def lit_def)
  have nofile: "\<not> spec_file_ok None" by (simp add: spec_file_ok_def)
  have rejected: "\<exists>answer. validateSubmission plainTextLibrary ?bad None = Inl answer"
    using collectErrors_empty_iff [of plainTextLibrary ?bad None] nofile
    by (simp add: validateSubmission_cases)
  from good obtain vd
    where vd: "validateSubmission plainTextLibrary scenario_body (Some scenario_file) = Inr vd"
    by blast
  from rejected obtain answer
    where answer: "validateSubmission plainTextLibrary ?bad None = Inl answer"
    by blast
  have one: "vd = \<lparr>vd_name = lit ''John Doe'', vd_email = lit ''john@example.com'',
          vd_phone = lit ''1234567890'', vd_terms = True\<rparr>"
    using validateSubmission_outcome [of plainTextLibrary scenario_body "Some scenario_file"]
    by (simp add: vd Let_def fd low)
  have two: "(\<exists>m \<in> {lit ''Name is required'',
               lit ''Name must be between 4 and 30 characters long'',
               lit ''Name must contain only alphabetic characters and spaces''}.
          m \<in> set (collectErrors plainTextLibrary ?bad None))
     \<and> (\<exists>m \<in> {lit ''Image is required'',
               lit ''Image must be in JPG, JPEG, or PNG format'',
               lit ''Image size must not exceed 2MB''}.
          m \<in> set (collectErrors plainTextLibrary ?bad None))"
    using validateSubmission_outcome [of plainTextLibrary ?bad None] bad nofile
    unfolding answer Let_def sum.case by blast
  from one two ok bad nofile vd show ?thesis by simp
qed

section \<open>A second pass of the sanitizer\<close>

lemma replaceAll_no_match:
  "(\<And>t. set t \<subseteq> set s \<Longrightarrow> m t = None) \<Longrightarrow> replaceAll m rep s = s"
proof (induction s)
  case Nil
  show ?case by simp
next
  case (Cons c cs)
  have "m (c # cs) = None" by (rule Cons.prems) simp
  moreover have "replaceAll m rep cs = cs"
    by (rule Cons.IH, rule Cons.prems) auto
  ultimately show ?case by simp
qed

lemma m_lit_needs: "m_lit (c # pat) t = Some n \<Longrightarrow> c \<in> set t"
  by (auto simp: m_lit_def prefix_def split: if_splits)

lemma m_tag_needs: "m_tag t = Some n \<Longrightarrow> 60 \<in> set t"
  by (auto simp: m_tag_def split: list.splits if_splits)

lemma m_lit_ci_needs:
  assumes "m_lit_ci pat t = Some n" and "k \<in> set pat" and "k < 65 \<or> 122 < k"
  shows "k \<in> set t"
proof -
  from assms(1) have eq: "map canonicalize (take (length pat) t) = map canonicalize pat"
    by (simp add: m_lit_ci_def split: if_splits)
  from assms(3) have "canonicalize k = k" by (auto simp: canonicalize_def)
  with assms(2) have "k \<in> set (map canonicalize pat)" by force
  with eq have "k \<in> set (map canonicalize (take (length pat) t))" by simp
  then obtain c where c: "c \<in> set (take (length pat) t)" and "canonicalize c = k" by auto
  with assms(3) have "c = k" by (auto simp: canonicalize_def split: if_splits)
  with c show ?thesis by (auto dest: in_set_takeD)
qed

lemma m_ci_word_space_needs: "m_ci_word_space pat words stop t = Some n \<Longrightarrow> stop \<in> set t"
proof -
  assume a: "m_ci_word_space pat words stop t = Some n"
  then obtain k j x r where "drop k (drop j t) = x # r" "x = stop"
    by (auto simp: m_ci_word_space_def Let_def split: option.splits if_splits list.splits)
  then have "stop \<in> set (drop k (drop j t))" by simp
  then show ?thesis by (auto dest!: in_set_dropD)
qed

lemma decodeEntities_plain: "38 \<notin> set s \<Longrightarrow> decodeEntities s = s"
proof -
  assume a: "38 \<notin> set s"
  have step: "replaceAll (m_lit (38 # pat)) rep s = s" for pat rep
    by (rule replaceAll_no_match) (use a m_lit_needs in fastforce)
  have amp: "lit ''&lt;'' = 38 # lit ''lt;''" "lit ''&gt;'' = 38 # lit ''gt;''"
    "lit ''&amp;'' = 38 # lit ''amp;''" "lit ''&quot;'' = 38 # lit ''quot;''"
    "lit ''&#x27;'' = 38 # lit ''#x27;''" "lit ''&#x2F;'' = 38 # lit ''#x2F;''"
    "lit ''&#x60;'' = 38 # lit ''#x60;''"
    by (simp_all add: lit_def)
  show ?thesis unfolding decodeEntities_def amp by (simp only: step)
qed

lemma removeTags_plain: "60 \<notin> set s \<Longrightarrow> removeTags s = s"
  unfolding removeTags_def
  by (rule replaceAll_no_match) (use m_tag_needs in fastforce)

lemma removeScriptLike_plain:
  assumes "58 \<notin> set s" and "61 \<notin> set s" and "40 \<notin> set s"
  shows "removeScriptLike s = s"
proof -
  have js: "replaceAll (m_lit_ci (lit ''javascript:'')) [] s = s"
  proof (rule replaceAll_no_match)
    fix t assume t: "set t \<subseteq> set s"
    show "m_lit_ci (lit ''javascript:'') t = None"
    proof (cases "m_lit_ci (lit ''javascript:'') t")
      case (Some n)
      then have "58 \<in> set t" by (rule m_lit_ci_needs) (simp_all add: lit_def)
      with t assms(1) show ?thesis by auto
    qed simp
  qed
  have vb: "replaceAll (m_lit_ci (lit ''vbscript:'')) [] s = s"
  proof (rule replaceAll_no_match)
    fix t assume t: "set t \<subseteq> set s"
    show "m_lit_ci (lit ''vbscript:'') t = None"
    proof (cases "m_lit_ci (lit ''vbscript:'') t")
      case (Some n)
      then have "58 \<in> set t" by (rule m_lit_ci_needs) (simp_all add: lit_def)
      with t assms(1) show ?thesis by auto
    qed simp
  qed
  have on: "replaceAll m_on_handler [] s = s"
  proof (rule replaceAll_no_match)
    fix t assume t: "set t \<subseteq> set s"
    show "m_on_handler t = None"
    proof (cases "m_on_handler t")
      case (Some n)
      then have "61 \<in> set t" unfolding m_on_handler_def by (rule m_ci_word_space_needs)
      with t assms(2) show ?thesis by auto
    qed simp
  qed
  have ex: "replaceAll m_expression [] s = s"
  proof (rule replaceAll_no_match)
    fix t assume t: "set t \<subseteq> set s"
    show "m_expression t = None"
    proof (cases "m_expression t")
      case (Some n)
      then have "40 \<in> set t" unfolding m_expression_def by (rule m_ci_word_space_needs)
      with t assms(3) show ?thesis by auto
    qed simp
  qed
  show ?thesis unfolding removeScriptLike_def by (simp only: js vb on ex)
qed

lemma removeControl_plain: "\<forall>c \<in> set s. \<not> isControl c \<Longrightarrow> removeControl s = s"
  by (simp add: removeControl_def)

text \<open>
  Claim C2, amended. Under the default options, and with DOMPurify handing a string
  without \<open><\<close> back as it is: whenever the sanitized string has no white space at its
  ends and none of the code units \<open><\<close>, \<open>&\<close>, \<open>:\<close>, \<open>=\<close>, \<open>(\<close>, sanitizing it again changes
  nothing.
\<close>

theorem sanitizeInput_idempotent_when_clean:
  assumes "\<forall>s. 60 \<notin> set s \<longrightarrow> dompurify lib [] s = s"
    and "y = sanitizeInput lib default_options (JStr x)"
    and "trim y = y"
    and "set y \<inter> {60, 38, 58, 61, 40} = {}"
  shows "sanitizeInput lib default_options (JStr (sanitizeInput lib default_options (JStr x)))
           = sanitizeInput lib default_options (JStr x)"
proof -
  have ctl: "\<forall>c \<in> set y. \<not> isControl c"
    unfolding assms(2) by (simp add: sanitizeString_clean)
  from assms(4) have no: "60 \<notin> set y" "38 \<notin> set y" "58 \<notin> set y" "61 \<notin> set y" "40 \<notin> set y"
    by auto
  have "sanitizeString lib default_options y = y"
    using assms(1) no(1)
    by (simp add: sanitizeString_def default_options_def Let_def assms(3) decodeEntities_plain
        removeTags_plain removeScriptLike_plain removeControl_plain limitLength_def no ctl)
  then show ?thesis using assms(2) by simp
qed

theorem sanitizeInput_idempotent_when_clean_witness:
  "lit ''John Doe'' = sanitizeInput plainTextLibrary default_options (JStr (lit ''  John Doe ''))
   \<and> trim (lit ''John Doe'') = lit ''John Doe''
   \<and> set (lit ''John Doe'') \<inter> {60, 38, 58, 61, 40} = {}
   \<and> sanitizeInput plainTextLibrary default_options
        (JStr (sanitizeInput plainTextLibrary default_options (JStr (lit ''  John Doe ''))))
       = sanitizeInput plainTextLibrary default_options (JStr (lit ''  John Doe ''))"
proof -
  have a: "\<forall>s. 60 \<notin> set s \<longrightarrow> dompurify plainTextLibrary [] s = s"
    by (simp add: plainTextLibrary_def)
  have b: "lit ''John Doe'' = sanitizeInput plainTextLibrary default_options (JStr (lit ''  John Doe ''))"
    by (simp add: sanitize_defs matcher_defs char_class_defs lit_def Let_def plainTextLibrary_def)
  have c: "trim (lit ''John Doe'') = lit ''John Doe''"
    by (simp add: trim_def lit_def isWhiteSpace_def)
  have d: "set (lit ''John Doe'') \<inter> {60, 38, 58, 61, 40} = {}"
    by (simp add: lit_def)
  from sanitizeInput_idempotent_when_clean [OF a b c d] b c d show ?thesis by blast
qed

text \<open>
  Two inputs on which a second pass changes the result, for every library whose DOMPurify
  hands a string without \<open><\<close> back as it is.
\<close>

lemma second_pass_differs:
  assumes "\<forall>s. 60 \<notin> set s \<longrightarrow> dompurify lib [] s = s"
  shows "sanitizeInput lib default_options (JStr (lit ''javajavascript:script:'')) = lit ''javascript:''"
    and "sanitizeInput lib default_options (JStr (lit ''javascript:'')) = []"
    and "sanitizeInput lib default_options (JStr [0, 32, 97]) = [32, 97]"
    and "sanitizeInput lib default_options (JStr [32, 97]) = [97]"
proof -
  have p: "dompurify lib [] (lit ''javajavascript:script:'') = lit ''javajavascript:script:''"
    "dompurify lib [] (lit ''javascript:'') = lit ''javascript:''"
    "dompurify lib [] [0, 32, 97] = [0, 32, 97]"
    "dompurify lib [] [97] = [97]"
    using assms by (simp_all add: lit_def)
  show "sanitizeInput lib default_options (JStr (lit ''javajavascript:script:'')) = lit ''javascript:''"
    using p(1) by (simp add: sanitize_defs matcher_defs char_class_defs lit_def Let_def)
  show "sanitizeInput lib default_options (JStr (lit ''javascript:'')) = []"
    using p(2) by (simp add: sanitize_defs matcher_defs char_class_defs lit_def Let_def)
  show "sanitizeInput lib default_options (JStr [0, 32, 97]) = [32, 97]"
    using p(3) by (simp add: sanitize_defs matcher_defs char_class_defs lit_def Let_def)
  show "sanitizeInput lib default_options (JStr [32, 97]) = [97]"
    using p(4) by (simp add: sanitize_defs matcher_defs char_class_defs lit_def Let_def)
qed

text \<open>
  The sanitizer is not idempotent on all strings: each pattern is removed in one pass, so
  a removal can bring a pattern together, and the control characters go after the
  trimming, so white space can come to stand at an end.
\<close>

theorem sanitizeInput_not_idempotent:
  "sanitizeInput plainTextLibrary default_options
     (JStr (sanitizeInput plainTextLibrary default_options (JStr (lit ''javajavascript:script:''))))
   \<noteq> sanitizeInput plainTextLibrary default_options (JStr (lit ''javajavascript:script:''))
   \<and> sanitizeInput plainTextLibrary default_options
       (JStr (sanitizeInput plainTextLibrary default_options (JStr [0, 32, 97])))
     \<noteq> sanitizeInput plainTextLibrary default_options (JStr [0, 32, 97])"
proof -
  have a: "sanitizeInput plainTextLibrary default_options (JStr (lit ''javajavascript:script:''))
      = lit ''javascript:''"
    by (simp add: sanitize_defs matcher_defs char_class_defs lit_def Let_def plainTextLibrary_def)
  have b: "sanitizeInput plainTextLibrary default_options (JStr (lit ''javascript:'')) = []"
    by (simp add: sanitize_defs matcher_defs char_class_defs lit_def Let_def plainTextLibrary_def)
  have c: "sanitizeInput plainTextLibrary default_options (JStr [0, 32, 97]) = [32, 97]"
    by (simp add: sanitize_defs matcher_defs char_class_defs lit_def Let_def plainTextLibrary_def)
  have d: "sanitizeInput plainTextLibrary default_options (JStr [32, 97]) = [97]"
    by (simp add: sanitize_defs matcher_defs char_class_defs lit_def Let_def plainTextLibrary_def)
  show ?thesis unfolding a b c d by (simp add: lit_def)
qed

section \<open>Properties of the store\<close>

lemma hasId_after_set:
  "upd (lit ''_id'') = None \<or> upd (lit ''_id'') = Some (FId oid) \<Longrightarrow> hasId oid doc \<Longrightarrow> hasId oid (doc ++ upd)"
  by (auto simp: hasId_def map_add_def split: option.splits)

lemma findOneAndUpdate_found:
  assumes "find (hasId oid) collection = Some doc"
    and "upd (lit ''_id'') = None \<or> upd (lit ''_id'') = Some (FId oid)"
  shows "\<exists>collection'. findOneAndUpdate oid upd collection = Some (Some (doc ++ upd), collection')
           \<and> find (hasId oid) collection' = Some (doc ++ upd)
           \<and> length collection' = length collection"
  using assms
proof (induction collection)
  case Nil
  then show ?case by simp
next
  case (Cons d ds)
  show ?case
  proof (cases "hasId oid d")
    case True
    with Cons.prems have "d = doc" by simp
    with True Cons.prems(2) show ?thesis
      by (auto simp: hasId_after_set)
  next
    case False
    with Cons.prems have "find (hasId oid) ds = Some doc" by simp
    from Cons.IH [OF this Cons.prems(2)] False show ?thesis by auto
  qed
qed

text \<open>
  Claim C8, amended. For a record of the collection and an update payload that does not
  name \<open>_id\<close>, \<open>updateById\<close> returns the record after the update: \<open>updatedAt\<close> is the time
  of the call, \<open>createdAt\<close> is unchanged when the payload does not name it, every field the
  payload does not name (other than \<open>updatedAt\<close>) is unchanged, and every field it names
  has the value of the payload.
\<close>

theorem updateById_frame:
  assumes "objectId ident = Some oid"
    and "find (hasId oid) collection = Some doc"
    and "updateData (lit ''_id'') = None"
  shows "\<exists>doc' collection'.
           updateById objectId now (Some collection) ident updateData = Inr (Some doc', collection')
           \<and> find (hasId oid) collection' = Some doc'
           \<and> doc' (lit ''updatedAt'') = Some (FDate now)
           \<and> (lit ''createdAt'' \<notin> dom updateData \<longrightarrow>
                 doc' (lit ''createdAt'') = doc (lit ''createdAt''))
           \<and> (\<forall>field. field \<notin> dom updateData \<and> field \<noteq> lit ''updatedAt'' \<longrightarrow>
                 doc' field = doc field)
           \<and> (\<forall>field \<in> dom updateData. field \<noteq> lit ''updatedAt'' \<longrightarrow>
                 doc' field = updateData field)"
proof -
  let ?upd = "updateData(lit ''updatedAt'' \<mapsto> FDate now)"
  have "?upd (lit ''_id'') = None \<or> ?upd (lit ''_id'') = Some (FId oid)"
    using assms(3) by simp
  with assms(2) findOneAndUpdate_found [of oid collection doc ?upd] obtain collection'
    where f: "findOneAndUpdate oid ?upd collection = Some (Some (doc ++ ?upd), collection')"
      and g: "find (hasId oid) collection' = Some (doc ++ ?upd)"
    by blast
  have "updateById objectId now (Some collection) ident updateData = Inr (Some (doc ++ ?upd), collection')"
    by (simp add: updateById_def assms(1) f Let_def)
  moreover have "(doc ++ ?upd) (lit ''updatedAt'') = Some (FDate now)" by simp
  moreover have "\<forall>field. field \<notin> dom updateData \<and> field \<noteq> lit ''updatedAt''
      \<longrightarrow> (doc ++ ?upd) field = doc field"
    by (auto simp: map_add_def dom_def split: option.splits)
  moreover have "\<forall>field \<in> dom updateData. field \<noteq> lit ''updatedAt''
      \<longrightarrow> (doc ++ ?upd) field = updateData field"
    by (auto simp: map_add_def dom_def split: option.splits)
  moreover have "lit ''createdAt'' \<noteq> lit ''updatedAt''" by simp
  ultimately show ?thesis using g by (metis (no_types, lifting))
qed

lemma scenario_objectId: "hexObjectId scenario_id = Some (lit ''65A1B2C3D4E5F60718293A4B'')"
  by (simp add: hexObjectId_def scenario_id_def lit_def digitVal_def isDigit_def canonicalize_def)

lemma scenario_found:
  "find (hasId (lit ''65A1B2C3D4E5F60718293A4B'')) [scenario_document] = Some scenario_document"
  by (simp add: hasId_def scenario_document_def)

theorem updateById_frame_witness:
  "hexObjectId scenario_id = Some (lit ''65A1B2C3D4E5F60718293A4B'')
   \<and> find (hasId (lit ''65A1B2C3D4E5F60718293A4B'')) [scenario_document] = Some scenario_document
   \<and> [lit ''status'' \<mapsto> FString (lit ''failed'')] (lit ''_id'') = (None :: jsstring field_value option)
   \<and> lit ''createdAt'' \<notin> dom [lit ''status'' \<mapsto> (FString (lit ''failed'') :: jsstring field_value)]
   \<and> (\<exists>doc' collection'.
         updateById hexObjectId 1700000009999 (Some [scenario_document]) scenario_id
           [lit ''status'' \<mapsto> FString (lit ''failed'')] = Inr (Some doc', collection')
         \<and> doc' (lit ''updatedAt'') = Some (FDate 1700000009999)
         \<and> doc' (lit ''createdAt'') = Some (FDate 1700000002100)
         \<and> doc' (lit ''status'') = Some (FString (lit ''failed''))
         \<and> doc' (lit ''name'') = Some (FString (lit ''John Doe'')))"
proof -
  let ?upd = "[lit ''status'' \<mapsto> (FString (lit ''failed'') :: jsstring field_value)]"
  have a: "?upd (lit ''_id'') = None" by simp
  have b: "lit ''createdAt'' \<notin> dom ?upd" by simp
  have c: "lit ''name'' \<notin> dom ?upd \<and> lit ''name'' \<noteq> lit ''updatedAt''" by simp
  have d: "lit ''status'' \<in> dom ?upd" "lit ''status'' \<noteq> lit ''updatedAt''" by simp_all
  have e: "scenario_document (lit ''createdAt'') = Some (FDate 1700000002100)"
    "scenario_document (lit ''name'') = Some (FString (lit ''John Doe''))"
    by (simp_all add: scenario_document_def)
  from updateById_frame [of hexObjectId scenario_id "lit ''65A1B2C3D4E5F60718293A4B''"
      "[scenario_document]" scenario_document ?upd 1700000009999]
    scenario_objectId scenario_found a
  obtain doc' collection' where
    r: "updateById hexObjectId 1700000009999 (Some [scenario_document]) scenario_id ?upd
          = Inr (Some doc', collection')"
    and u: "doc' (lit ''updatedAt'') = Some (FDate 1700000009999)"
    and k: "lit ''createdAt'' \<notin> dom ?upd \<longrightarrow>
              doc' (lit ''createdAt'') = scenario_document (lit ''createdAt'')"
    and o: "\<forall>field. field \<notin> dom ?upd \<and> field \<noteq> lit ''updatedAt'' \<longrightarrow>
              doc' field = scenario_document field"
    and n: "\<forall>field \<in> dom ?upd. field \<noteq> lit ''updatedAt'' \<longrightarrow> doc' field = ?upd field"
    by blast
  from k b e have k': "doc' (lit ''createdAt'') = Some (FDate 1700000002100)" by simp
  from o c e have o': "doc' (lit ''name'') = Some (FString (lit ''John Doe''))" by metis
  from n d have n': "doc' (lit ''status'') = Some (FString (lit ''failed''))" by auto
  from r u k' o' n' scenario_objectId scenario_found a b show ?thesis by blast
qed

text \<open>A payload that names \<open>createdAt\<close> overwrites it: nothing in the code protects the field.\<close>

theorem updateById_createdAt_counterexample:
  "updateById hexObjectId 1700000009999 (Some [scenario_document]) scenario_id
     [lit ''createdAt'' \<mapsto> FDate 5]
   = Inr (Some (scenario_document ++ [lit ''createdAt'' \<mapsto> FDate 5,
                                        lit ''updatedAt'' \<mapsto> FDate 1700000009999]),
          [scenario_document ++ [lit ''createdAt'' \<mapsto> FDate 5,
                                 lit ''updatedAt'' \<mapsto> FDate 1700000009999]])
   \<and> (scenario_document ++ [lit ''createdAt'' \<mapsto> FDate 5,
                              lit ''updatedAt'' \<mapsto> FDate 1700000009999]) (lit ''createdAt'')
       = Some (FDate 5)
   \<and> scenario_document (lit ''createdAt'') = Some (FDate 1700000002100)"
proof -
  have h: "hasId (lit ''65A1B2C3D4E5F60718293A4B'') scenario_document"
    by (simp add: hasId_def scenario_document_def)
  show ?thesis
    by (simp add: updateById_def scenario_objectId h Let_def) (simp add: scenario_document_def)
qed

section \<open>Properties of the submission handler\<close>

text \<open>The handler reads the raw body; what the validator has put in the request is not used.\<close>

lemma handleSubmission_ignores_validatedData:
  "handleSubmission env (req\<lparr>req_validatedData := v\<rparr>) st = handleSubmission env req st"
  by (simp add: handleSubmission_def)

lemma handleSubmission_stores_body:
  assumes "handleSubmission env req st = (JsonSubmitted code message ident url t, st')"
  shows "\<exists>record. submissions st' = submissions st @ [record]
           \<and> sub_name record = body_name (req_body req)
           \<and> sub_email record = body_email (req_body req)
           \<and> sub_phone record = body_phone (req_body req)
           \<and> sub_id record = submissionId st \<and> ident = submissionId st
           \<and> submissionId st' = submissionId st + 1"
  using assms
  by (auto simp: handleSubmission_def Let_def
      split: option.splits image_validation.splits sum.splits prod.splits if_splits)

lemma swapFace_success: "swapFace env fs path = Inr (result, fs') \<Longrightarrow> success result"
  by (auto simp: swapFace_def simulateFaceSwap_def Let_def split: if_splits option.splits sum.splits)

text \<open>
  Claim C3. When the stored image fails the check of \<open>validateImage\<close>, the answer is status
  400 with its error and the state is the one before; when \<open>swapFace\<close> throws, the answer
  is status 500 and the state is the one before; and whenever the handler answers with an
  error, no record has been added and the counter has not moved. (\<open>swapFace\<close> never
  reports a result without success, by \<open>swapFace_success\<close>.)
\<close>

theorem handleSubmission_failure_atomic:
  "(\<forall>f err. req_file req = Some f
        \<and> validateImage (files st) (file_path f) = ImageInvalid err \<longrightarrow>
        handleSubmission env req st = (JsonError 400 err, st))
   \<and> (\<forall>f n format message. req_file req = Some f
        \<and> validateImage (files st) (file_path f) = ImageValid n format
        \<and> swapFace env (files st) (file_path f) = Inl message \<longrightarrow>
        handleSubmission env req st
          = (JsonError 500 (lit ''Internal server error during processing''), st))
   \<and> (\<forall>code message. fst (handleSubmission env req st) = JsonError code message \<longrightarrow>
        submissions (snd (handleSubmission env req st)) = submissions st
        \<and> submissionId (snd (handleSubmission env req st)) = submissionId st)"
  by (auto simp: handleSubmission_def Let_def
      split: option.splits image_validation.splits sum.splits prod.splits if_splits)

lemma scenario_image_valid:
  "validateImage (files scenario_state) (file_path scenario_file) = ImageValid 10 (lit ''jpeg'')"
  by (simp add: validateImage_def scenario_state_def scenario_image_def isValidImageBuffer_def
      getImageFormat_def signatures_def signature_every_3 buf_at_def)

lemma scenario_extname: "extname (file_path scenario_file) = lit ''.jpg''"
  by (simp add: extname_def scenario_file_def lit_def Let_def)

lemma scenario_decimal: "decimal 1700000000100 = lit ''1700000000100''"
  by (simp add: decimal.simps lit_def)

lemma scenario_swap:
  "swapFace scenario_env (files scenario_state) (file_path scenario_file) =
     Inr (\<lparr>success = True,
           res_swappedImagePath =
             lit ''/app/public/uploads/swapped/swapped_1700000000100_q7w8e9.jpg'',
           res_swappedImageFilename = lit ''swapped_1700000000100_q7w8e9.jpg'',
           res_originalSize = 10,
           res_processedSize = 10,
           res_processingTime = 2000\<rparr>,
          (files scenario_state)
            (lit ''/app/public/uploads/swapped/swapped_1700000000100_q7w8e9.jpg''
               \<mapsto> scenario_image))"
proof -
  have f: "files scenario_state (file_path scenario_file) = Some scenario_image"
    by (simp add: scenario_state_def)
  have n: "lit ''swapped_'' @ decimal (timestamp scenario_env) @ lit ''_''
             @ randomString scenario_env @ extname (file_path scenario_file)
           = lit ''swapped_1700000000100_q7w8e9.jpg''"
    unfolding scenario_extname by (simp add: scenario_env_def scenario_decimal) (simp add: lit_def)
  have p: "swappedDir scenario_env @ lit ''/'' @ lit ''swapped_1700000000100_q7w8e9.jpg''
           = lit ''/app/public/uploads/swapped/swapped_1700000000100_q7w8e9.jpg''"
    by (simp add: scenario_env_def lit_def)
  have l: "length scenario_image = 10" by (simp add: scenario_image_def)
  have k: "apiKey scenario_env = Some (lit ''secret-key'')" "swappedDirExists scenario_env"
    by (simp_all add: scenario_env_def)
  show ?thesis
    by (simp add: swapFace_def simulateFaceSwap_def f Let_def n p l k)
qed

lemma scenario_handled:
  "handleSubmission scenario_env (scenario_request\<lparr>req_validatedData := v\<rparr>) (scenario_state\<lparr>rateLimitStore := store\<rparr>) =
     (JsonSubmitted 200 (lit ''Face swap completed successfully!'') 1
        (lit ''/uploads/swapped/swapped_1700000000100_q7w8e9.jpg'') 2000,
      scenario_state
        \<lparr>rateLimitStore := store,
         files := (files scenario_state)
            (lit ''/app/public/uploads/swapped/swapped_1700000000100_q7w8e9.jpg''
               \<mapsto> scenario_image),
         submissions := [scenario_record],
         submissionId := 2\<rparr>)"
proof -
  have r: "req_file scenario_request = Some scenario_file" "req_body scenario_request = scenario_body"
    by (simp_all add: scenario_request_def)
  have u: "lit ''/uploads/swapped/'' @ lit ''swapped_1700000000100_q7w8e9.jpg''
      = lit ''/uploads/swapped/swapped_1700000000100_q7w8e9.jpg''"
    by (simp add: lit_def)
  have s: "submissions scenario_state = []" "submissionId scenario_state = 1"
    by (simp_all add: scenario_state_def)
  have c: "createdNow scenario_env = 1700000002100" by (simp add: scenario_env_def)
  have two: "Suc (Suc 0) = 2" by simp
  have rec: "\<lparr>sub_id = Suc 0, sub_name = body_name scenario_body, sub_email = body_email scenario_body,
        sub_phone = body_phone scenario_body,
        sub_terms = (body_terms scenario_body = JStr (lit ''on'') \<or> body_terms scenario_body = JBool True),
        sub_originalImagePath = file_path scenario_file,
        sub_originalImageFilename = file_filename scenario_file,
        sub_swappedImagePath = lit ''/app/public/uploads/swapped/swapped_1700000000100_q7w8e9.jpg'',
        sub_swappedImageFilename = lit ''swapped_1700000000100_q7w8e9.jpg'',
        sub_processingTime = 2000, sub_createdAt = 1700000002100,
        sub_status = lit ''completed''\<rparr> = scenario_record"
    by (simp add: scenario_record_def scenario_body_def scenario_file_def)
  show ?thesis
    by (simp add: handleSubmission_def r scenario_image_valid scenario_swap Let_def u s c rec two)
qed

lemma scenario_validated:
  "validateSubmission plainTextLibrary scenario_body (Some scenario_file) =
     Inr \<lparr>vd_name = lit ''John Doe'', vd_email = lit ''john@example.com'',
          vd_phone = lit ''1234567890'', vd_terms = True\<rparr>"
proof -
  have fd: "formDataOf plainTextLibrary scenario_body =
      \<lparr>fd_name = lit ''John Doe'', fd_email = lit ''JOHN@EXAMPLE.COM'',
       fd_phone = lit ''1234567890'', fd_terms = lit ''on''\<rparr>"
    by (simp add: eval_defs)
  have low: "lowerCase plainTextLibrary (lit ''JOHN@EXAMPLE.COM'') = lit ''john@example.com''"
    by (simp add: plainTextLibrary_def lit_def)
  have errs: "collectErrors plainTextLibrary scenario_body (Some scenario_file) = []"
    unfolding collectErrors_def Let_def fd
    by (simp add: nameErrors_def emailErrors_def phoneErrors_def termsErrors_def fileErrors_def
        matchesName_def matchesPhone_def allowedMimeTypes_def maxFileSize_def scenario_file_def
        scenario_body_def plainTextLibrary_def lit_def isAlpha_def isWhiteSpace_def isDigit_def)
  show ?thesis by (simp add: validateSubmission_cases errs fd low)
qed

text \<open>
  Claim C1, on the scenario of the specification. The request passes the validation, whose
  validated data holds the email in lower case, and the route answers with status 200, the
  identifier 1 and the URL of the swapped image. The record stored holds the email of the
  request body as it came, \<open>JOHN@EXAMPLE.COM\<close>: the handler builds the record from
  \<open>req.body\<close> and never reads \<open>req.validatedData\<close>.
\<close>

theorem scenario_stores_raw_email:
  "validateSubmission plainTextLibrary (req_body scenario_request) (req_file scenario_request) =
     Inr \<lparr>vd_name = lit ''John Doe'', vd_email = lit ''john@example.com'',
          vd_phone = lit ''1234567890'', vd_terms = True\<rparr>
   \<and> fst (submitRoute plainTextLibrary scenario_env 1700000000000 scenario_request scenario_state) =
       JsonSubmitted 200 (lit ''Face swap completed successfully!'') 1
         (lit ''/uploads/swapped/swapped_1700000000100_q7w8e9.jpg'') 2000
   \<and> submissions (snd (submitRoute plainTextLibrary scenario_env 1700000000000 scenario_request
                          scenario_state)) = [scenario_record]
   \<and> sub_email scenario_record = JStr (lit ''JOHN@EXAMPLE.COM'')
   \<and> sub_email scenario_record \<noteq> JStr (lit ''john@example.com'')"
proof -
  have r: "req_file scenario_request = Some scenario_file" "req_body scenario_request = scenario_body"
    by (simp_all add: scenario_request_def)
  have open_window: "rateLimit 1700000000000 (req_ip scenario_request) (rateLimitStore scenario_state)
      = (None, (rateLimitStore scenario_state)(req_ip scenario_request \<mapsto>
            \<lparr>count = 1, resetTime = 1700000000000 + windowMs\<rparr>))"
    by (rule rateLimit_opens) (simp add: scenario_state_def)
  have route: "submitRoute plainTextLibrary scenario_env 1700000000000 scenario_request scenario_state
      = handleSubmission scenario_env
          (scenario_request\<lparr>req_validatedData :=
             Some \<lparr>vd_name = lit ''John Doe'', vd_email = lit ''john@example.com'',
                   vd_phone = lit ''1234567890'', vd_terms = True\<rparr>\<rparr>)
          (scenario_state\<lparr>rateLimitStore := (rateLimitStore scenario_state)(req_ip scenario_request \<mapsto>
            \<lparr>count = 1, resetTime = 1700000000000 + windowMs\<rparr>)\<rparr>)"
    by (simp add: submitRoute_def open_window r scenario_validated)
  have e: "sub_email scenario_record = JStr (lit ''JOHN@EXAMPLE.COM'')"
    by (simp add: scenario_record_def)
  show ?thesis
    unfolding route scenario_handled r
    by (simp add: scenario_validated e)
qed

theorem handleSubmission_failure_atomic_witness:
  "req_file scenario_request = Some scenario_file
   \<and> validateImage (files scenario_text_state) (file_path scenario_file)
       = ImageInvalid (lit ''Invalid image format'')
   \<and> handleSubmission scenario_env scenario_request scenario_text_state
       = (JsonError 400 (lit ''Invalid image format''), scenario_text_state)
   \<and> validateImage (files scenario_state) (file_path scenario_file) = ImageValid 10 (lit ''jpeg'')
   \<and> swapFace (scenario_env\<lparr>apiKey := None\<rparr>) (files scenario_state) (file_path scenario_file)
       = Inl (lit ''Face swap operation failed: '' @ lit ''Remaker API key not configured'')
   \<and> handleSubmission (scenario_env\<lparr>apiKey := None\<rparr>) scenario_request scenario_state
       = (JsonError 500 (lit ''Internal server error during processing''), scenario_state)
   \<and> submissions (snd (handleSubmission (scenario_env\<lparr>apiKey := None\<rparr>) scenario_request
                          scenario_state)) = submissions scenario_state
   \<and> submissionId (snd (handleSubmission (scenario_env\<lparr>apiKey := None\<rparr>) scenario_request
                          scenario_state)) = submissionId scenario_state"
proof -
  have a: "req_file scenario_request = Some scenario_file"
    by (simp add: scenario_request_def)
  have b: "validateImage (files scenario_text_state) (file_path scenario_file)
       = ImageInvalid (lit ''Invalid image format'')"
    by (simp add: validateImage_def scenario_text_state_def isValidImageBuffer_def
        signatures_def signature_every_3 signature_every_4 buf_at_def)
  have c: "swapFace (scenario_env\<lparr>apiKey := None\<rparr>) (files scenario_state) (file_path scenario_file)
       = Inl (lit ''Face swap operation failed: '' @ lit ''Remaker API key not configured'')"
    by (simp add: swapFace_def)
  note t = handleSubmission_failure_atomic [of scenario_request scenario_text_state scenario_env]
  note u = handleSubmission_failure_atomic [of scenario_request scenario_state "scenario_env\<lparr>apiKey := None\<rparr>"]
  have one: "handleSubmission scenario_env scenario_request scenario_text_state
       = (JsonError 400 (lit ''Invalid image format''), scenario_text_state)"
    using t a b by blast
  have two: "handleSubmission (scenario_env\<lparr>apiKey := None\<rparr>) scenario_request scenario_state
       = (JsonError 500 (lit ''Internal server error during processing''), scenario_state)"
    using u a scenario_image_valid c by blast
  have three: "submissions (snd (handleSubmission (scenario_env\<lparr>apiKey := None\<rparr>) scenario_request
                          scenario_state)) = submissions scenario_state
     \<and> submissionId (snd (handleSubmission (scenario_env\<lparr>apiKey := None\<rparr>) scenario_request
                          scenario_state)) = submissionId scenario_state"
    using u two by (metis fst_conv)
  from a b c one two three scenario_image_valid show ?thesis by blast
qed

section \<open>Properties of the list route\<close>

lemma validPage_bounds: "1 \<le> validPage lib p \<and> (p = None \<longrightarrow> validPage lib p = 1)"
  by (simp add: validPage_def queryValue_def split: option.splits)

lemma validLimit_bounds:
  "1 \<le> validLimit lib l \<and> validLimit lib l \<le> 50 \<and> (l = None \<longrightarrow> validLimit lib l = 10)"
  by (simp add: validLimit_def queryValue_def split: option.splits)

lemma validSort_bounds:
  "fst (validSort lib s) \<in> set allowedSortFields
   \<and> (s = None \<longrightarrow> validSort lib s = (lit ''createdAt'', - 1))"
proof -
  have c: "lit ''createdAt'' \<in> set allowedSortFields" by (simp add: allowedSortFields_def)
  show ?thesis
    by (simp add: validSort_def queryValue_def Let_def c split: option.splits)
qed

text \<open>
  The query validator by itself: the page is at least 1, the limit lies in [1,50], the
  sort field is one of the allowed ones, and an absent parameter gives its default.
\<close>

lemma validateSubmissionsQuery_bounds:
  "1 \<le> qo_page (validateSubmissionsQuery lib q)
   \<and> 1 \<le> qo_limit (validateSubmissionsQuery lib q)
   \<and> qo_limit (validateSubmissionsQuery lib q) \<le> 50
   \<and> qo_sortBy (validateSubmissionsQuery lib q) \<in> set allowedSortFields
   \<and> qo_skip (validateSubmissionsQuery lib q)
       = (qo_page (validateSubmissionsQuery lib q) - 1) * qo_limit (validateSubmissionsQuery lib q)
   \<and> (q_page q = None \<longrightarrow> qo_page (validateSubmissionsQuery lib q) = 1)
   \<and> (q_limit q = None \<longrightarrow> qo_limit (validateSubmissionsQuery lib q) = 10)
   \<and> (q_sort q = None \<longrightarrow> qo_sortBy (validateSubmissionsQuery lib q) = lit ''createdAt''
         \<and> qo_sortOrder (validateSubmissionsQuery lib q) = - 1)"
proof -
  have sel: "qo_page (validateSubmissionsQuery lib q) = validPage lib (q_page q)"
    "qo_limit (validateSubmissionsQuery lib q) = validLimit lib (q_limit q)"
    "qo_sortBy (validateSubmissionsQuery lib q) = fst (validSort lib (q_sort q))"
    "qo_sortOrder (validateSubmissionsQuery lib q) = snd (validSort lib (q_sort q))"
    "qo_skip (validateSubmissionsQuery lib q)
       = (validPage lib (q_page q) - 1) * validLimit lib (q_limit q)"
    by (simp_all add: validateSubmissionsQuery_def Let_def split_beta)
  show ?thesis
    unfolding sel
    using validPage_bounds [of lib "q_page q"] validLimit_bounds [of lib "q_limit q"]
      validSort_bounds [of lib "q_sort q"]
    by simp
qed

lemma renderSubmissions_ignores_queryOptions:
  "renderSubmissions lib (req\<lparr>req_queryOptions := v\<rparr>) st = renderSubmissions lib req st"
  by (simp add: renderSubmissions_def)

lemma parseInt_minus_one: "parseInt (lit ''-1'') = Some (- 1)"
  by (simp add: parseInt_def lit_def isWhiteSpace_def digitVal_def isDigit_def Let_def)

lemma parseInt_hundred: "parseInt (lit ''100'') = Some 100"
  by (simp add: parseInt_def lit_def isWhiteSpace_def digitVal_def isDigit_def Let_def)

text \<open>
  Claim C5, on the query \<open>?page=-1&limit=100\<close> with one record stored. The validator
  produces page 1 and limit 10 (within the bounds of \<open>validateSubmissionsQuery_bounds\<close>),
  which would list the record. The handler parses the raw query again: it uses page -1
  and limit 50, and lists nothing.
\<close>

theorem list_ignores_validated_query:
  "validateSubmissionsQuery plainTextLibrary scenario_list_query =
     \<lparr>qo_page = 1, qo_limit = 10, qo_skip = 0, qo_sortBy = lit ''createdAt'', qo_sortOrder = - 1\<rparr>
   \<and> listPage scenario_list_query = - 1
   \<and> listLimit scenario_list_query = 50
   \<and> listRoute plainTextLibrary (scenario_request\<lparr>req_query := scenario_list_query\<rparr>)
         scenario_list_state =
       RenderSubmissions []
         \<lparr>totalCount = 1, currentPage = - 1, totalPages = 1, hasNext = True, hasPrev = False,
          nextPage = 0, prevPage = - 2\<rparr>
   \<and> slice ((1 - 1) * 10) ((1 - 1) * 10 + 10) (submissions scenario_list_state) = [scenario_record]"
proof -
  have s1: "sanitizeString plainTextLibrary default_options (lit ''-1'') = lit ''-1''"
    by (simp add: sanitize_defs matcher_defs char_class_defs lit_def Let_def plainTextLibrary_def)
  have s2: "sanitizeString plainTextLibrary default_options (lit ''100'') = lit ''100''"
    by (simp add: sanitize_defs matcher_defs char_class_defs lit_def Let_def plainTextLibrary_def)
  have v: "validateSubmissionsQuery plainTextLibrary scenario_list_query =
     \<lparr>qo_page = 1, qo_limit = 10, qo_skip = 0, qo_sortBy = lit ''createdAt'', qo_sortOrder = - 1\<rparr>"
    by (simp add: validateSubmissionsQuery_def validPage_def validLimit_def validSort_def
        scenario_list_query_def queryValue_def s1 s2 parseInt_minus_one parseInt_hundred Let_def)
  have p: "listPage scenario_list_query = - 1"
    by (simp add: listPage_def parseIntParam_def scenario_list_query_def parseInt_minus_one)
  have l: "listLimit scenario_list_query = 50"
    by (simp add: listLimit_def parseIntParam_def scenario_list_query_def parseInt_hundred)
  have o: "listSort scenario_list_query = lit ''createdAt''"
    by (simp add: listSort_def scenario_list_query_def)
  have subs: "submissions scenario_list_state = [scenario_record]"
    by (simp add: scenario_list_state_def)
  have r: "listRoute plainTextLibrary (scenario_request\<lparr>req_query := scenario_list_query\<rparr>)
         scenario_list_state =
       RenderSubmissions []
         \<lparr>totalCount = 1, currentPage = - 1, totalPages = 1, hasNext = True, hasPrev = False,
          nextPage = 0, prevPage = - 2\<rparr>"
    by (simp add: listRoute_def renderSubmissions_def p l o subs slice_def ceilDiv_def Let_def)
  have w: "slice ((1 - 1) * 10) ((1 - 1) * 10 + 10) (submissions scenario_list_state) = [scenario_record]"
    by (simp add: subs slice_def Let_def)
  from v p l r w show ?thesis by blast
qed

end
